theory Spec2Isabelle
  imports Complex_Main "HOL-Library.Word" "HOL-Library.Char_ord" "HOL-Library.List_Lexorder"
    "HOL-Library.Multiset" "HOL-Library.Log_Nat"
begin

section \<open>JavaScript strings\<close>

text \<open>
  A JavaScript string is a sequence of UTF-16 code units. \<open>startsWith\<close>, \<open>substring\<close>,
  \<open>split\<close> and the (non-unicode) regular expressions of the handlers all work on code
  units, so a string is a list of 16-bit words. \<open>lit\<close> embeds an ASCII literal of the
  source; the non-ASCII characters of the source's reply texts are written as code units.
\<close>

type_synonym jsstring = "16 word list"

definition lit :: "string \<Rightarrow> jsstring" where
  "lit s = map of_char s"

text \<open>\<open>s.startsWith(p)\<close>.\<close>

definition startsWith :: "jsstring \<Rightarrow> jsstring \<Rightarrow> bool" where
  "startsWith s p = (take (length p) s = p)"

text \<open>\<open>s.substring(0, n)\<close>.\<close>

definition substring0 :: "jsstring \<Rightarrow> nat \<Rightarrow> jsstring" where
  "substring0 s n = take n s"

text \<open>
  The character class \<open>\s\<close> of an ECMAScript regular expression: WhiteSpace and
  LineTerminator code points.
\<close>

definition isWhitespace :: "16 word \<Rightarrow> bool" where
  "isWhitespace c =
     (c = 0x09 \<or> c = 0x0A \<or> c = 0x0B \<or> c = 0x0C \<or> c = 0x0D \<or> c = 0x20 \<or> c = 0xA0 \<or>
      c = 0x1680 \<or> (0x2000 \<le> c \<and> c \<le> 0x200A) \<or> c = 0x2028 \<or> c = 0x2029 \<or>
      c = 0x202F \<or> c = 0x205F \<or> c = 0x3000 \<or> c = 0xFEFF)"

text \<open>
  \<open>text.split(/\s+/)\<close>: the pieces between maximal runs of whitespace. A run at the start
  or at the end of the text leaves an empty piece there, and the empty text splits into
  one empty piece. The flag says that the scan is inside a run; \<open>cur\<close> is the piece
  being read, reversed.
\<close>

fun split_ws_from :: "bool \<Rightarrow> jsstring \<Rightarrow> jsstring \<Rightarrow> jsstring list" where
  "split_ws_from inrun cur [] = [rev cur]"
| "split_ws_from inrun cur (c # cs) =
     (if isWhitespace c
      then (if inrun then split_ws_from True cur cs
            else rev cur # split_ws_from True [] cs)
      else split_ws_from False (c # cur) cs)"

definition split_ws :: "jsstring \<Rightarrow> jsstring list" where
  "split_ws s = split_ws_from False [] s"

text \<open>
  The pattern \<open>/^\/receipt[_]?([a-f0-9]+)/i\<close> of \<open>handleMessage\<close>. With the flag \<open>i\<close> and
  no flag \<open>u\<close> a pattern character matches a text character with the same upper-case
  form, and a text character outside ASCII never matches an ASCII one: the letters of
  \<open>/receipt\<close> match in either case, and the class matches the digits and the letters a to
  f in either case. The underscore is not in the class, so backtracking over \<open>[_]?\<close> never
  finds another match. The result is capture group 1, the longest run of class
  characters, as the text spells it.
\<close>

definition upper_ascii :: "16 word \<Rightarrow> 16 word" where
  "upper_ascii c = (if 0x61 \<le> c \<and> c \<le> 0x7A then c - 0x20 else c)"

definition isHexDigitI :: "16 word \<Rightarrow> bool" where
  "isHexDigitI c =
     ((0x30 \<le> c \<and> c \<le> 0x39) \<or> (0x61 \<le> c \<and> c \<le> 0x66) \<or> (0x41 \<le> c \<and> c \<le> 0x46))"

definition receiptMatch :: "jsstring \<Rightarrow> jsstring option" where
  "receiptMatch s =
     (if length s \<ge> 8 \<and> map upper_ascii (take 8 s) = map upper_ascii (lit ''/receipt'')
      then (let rest = drop 8 s;
                rest' = (case rest of [] \<Rightarrow> [] | c # cs \<Rightarrow> if c = 0x5F then cs else rest);
                digits = takeWhile isHexDigitI rest'
            in if digits = [] then None else Some digits)
      else None)"

section \<open>The relational store\<close>

text \<open>
  A JavaScript number and a value of an SQLite REAL column are IEEE 754 doubles. A finite
  double is given by the rational it denotes; the two infinities are values of their own.
  NaN is left out: \<open>JSON.parse\<close> never yields it and SQLite stores NULL for it. Negative
  zero is not told apart from zero, which no operation of these handlers does either. The
  type has more finite values than there are doubles; nothing here computes with them
  except through the environment.
\<close>

datatype number = Finite rat | PosInfinity | NegInfinity

text \<open>
  The tables of \<open>lib/database.ts\<close>, each a list of rows in insertion order. A nullable
  column is an option.
\<close>

record UserRow =
  u_id :: jsstring
  u_email :: jsstring
  u_password :: jsstring
  u_name :: jsstring
  u_created_at :: jsstring

record ReceiptRow =
  r_id :: jsstring
  store_name :: "jsstring option"
  date :: "jsstring option"
  time :: "jsstring option"
  subtotal :: "number option"
  tax :: "number option"
  total_amount :: "number option"
  currency :: "jsstring option"
  payment_method :: "jsstring option"
  raw_response :: "jsstring option"
  created_at :: jsstring

record ReceiptItemRow =
  ri_id :: jsstring
  ri_receipt_id :: jsstring
  ri_name :: jsstring
  ri_quantity :: number
  ri_unit_price :: number
  ri_total_price :: number
  ri_category :: "jsstring option"

record UserReceiptRow =
  ur_id :: jsstring
  ur_user_id :: jsstring
  ur_receipt_id :: jsstring
  ur_added_at :: jsstring
  ur_notes :: "jsstring option"

record TelegramUser =
  chat_id :: jsstring
  user_id :: jsstring
  google_api_key :: "jsstring option"
  tu_created_at :: jsstring

record database =
  users :: "UserRow list"
  receipts :: "ReceiptRow list"
  receipt_items :: "ReceiptItemRow list"
  user_receipts :: "UserReceiptRow list"
  telegram_users :: "TelegramUser list"

text \<open>What a statement, a platform call or the transport throws; each carries its message.\<close>

datatype exn =
  SqliteError jsstring
  | TypeError jsstring
  | TransportError jsstring
  | BridgeError jsstring

fun message :: "exn \<Rightarrow> jsstring" where
  "message (SqliteError m) = m"
| "message (TypeError m) = m"
| "message (TransportError m) = m"
| "message (BridgeError m) = m"

subsection \<open>INSERT, with the constraints of the schema\<close>

text \<open>
  \<open>foreign_keys\<close> is ON. An INSERT that breaks a PRIMARY KEY, UNIQUE or FOREIGN KEY
  constraint throws and leaves the table as it was.
\<close>

definition insert_user :: "UserRow \<Rightarrow> database \<Rightarrow> exn + database" where
  "insert_user row d =
     (if u_id row \<in> set (map u_id (users d))
      then Inl (SqliteError (lit ''UNIQUE constraint failed: users.id''))
      else if u_email row \<in> set (map u_email (users d))
      then Inl (SqliteError (lit ''UNIQUE constraint failed: users.email''))
      else Inr (d\<lparr>users := users d @ [row]\<rparr>))"

definition insert_receipt :: "ReceiptRow \<Rightarrow> database \<Rightarrow> exn + database" where
  "insert_receipt row d =
     (if r_id row \<in> set (map r_id (receipts d))
      then Inl (SqliteError (lit ''UNIQUE constraint failed: receipts.id''))
      else Inr (d\<lparr>receipts := receipts d @ [row]\<rparr>))"

definition insert_receipt_item :: "ReceiptItemRow \<Rightarrow> database \<Rightarrow> exn + database" where
  "insert_receipt_item row d =
     (if ri_id row \<in> set (map ri_id (receipt_items d))
      then Inl (SqliteError (lit ''UNIQUE constraint failed: receipt_items.id''))
      else if ri_receipt_id row \<notin> set (map r_id (receipts d))
      then Inl (SqliteError (lit ''FOREIGN KEY constraint failed''))
      else Inr (d\<lparr>receipt_items := receipt_items d @ [row]\<rparr>))"

definition insert_user_receipt :: "UserReceiptRow \<Rightarrow> database \<Rightarrow> exn + database" where
  "insert_user_receipt row d =
     (if ur_id row \<in> set (map ur_id (user_receipts d))
      then Inl (SqliteError (lit ''UNIQUE constraint failed: user_receipts.id''))
      else if (ur_user_id row, ur_receipt_id row)
                \<in> set (map (\<lambda>l. (ur_user_id l, ur_receipt_id l)) (user_receipts d))
      then Inl (SqliteError
             (lit ''UNIQUE constraint failed: user_receipts.user_id, user_receipts.receipt_id''))
      else if ur_user_id row \<notin> set (map u_id (users d))
                \<or> ur_receipt_id row \<notin> set (map r_id (receipts d))
      then Inl (SqliteError (lit ''FOREIGN KEY constraint failed''))
      else Inr (d\<lparr>user_receipts := user_receipts d @ [row]\<rparr>))"

definition insert_telegram_user :: "TelegramUser \<Rightarrow> database \<Rightarrow> exn + database" where
  "insert_telegram_user row d =
     (if chat_id row \<in> set (map chat_id (telegram_users d))
      then Inl (SqliteError (lit ''UNIQUE constraint failed: telegram_users.chat_id''))
      else if user_id row \<notin> set (map u_id (users d))
      then Inl (SqliteError (lit ''FOREIGN KEY constraint failed''))
      else Inr (d\<lparr>telegram_users := telegram_users d @ [row]\<rparr>))"

subsection \<open>The types of \<open>types/receipt.ts\<close>\<close>

record ReceiptItem =
  item_id :: "jsstring option"
  item_receipt_id :: "jsstring option"
  name :: jsstring
  quantity :: number
  unit_price :: number
  total_price :: number
  category :: "jsstring option"

text \<open>
  \<open>ReceiptAnalysisResult\<close> is the type the source declares for the result of
  \<open>JSON.parse\<close>; nothing checks it. The handlers test the \<open>error\<close> field for truthiness
  and the storage iterates over \<open>items\<close>, so these two fields are taken as they come: the
  \<open>error\<close> field is any JavaScript value that a JSON text can give, or absent, and \<open>items\<close>
  is absent when it is no list of items. A parsed value that is not an object (a number, a
  string, a boolean, an array) has none of the fields. The other fields are read at the
  types the source declares. An object or an array is given by the text that a template
  literal makes of it.
\<close>

datatype js_value =
  JUndefined | JNull | JBoolean bool | JNumber number | JString jsstring | JObject jsstring

record ReceiptAnalysisResult =
  ar_store_name :: "jsstring option"
  ar_date :: "jsstring option"
  ar_time :: "jsstring option"
  ar_items :: "ReceiptItem list option"
  ar_subtotal :: "number option"
  ar_tax :: "number option"
  ar_total_amount :: "number option"
  ar_currency :: "jsstring option"
  ar_payment_method :: "jsstring option"
  ar_error :: js_value

text \<open>
  What \<open>JSON.parse\<close> does with a text: it throws, it gives \<open>null\<close>, or it gives a value
  whose fields can be read.
\<close>

datatype parse_result = ParseThrows | ParsedNull | Parsed ReceiptAnalysisResult

record Receipt = ReceiptRow +
  items :: "ReceiptItem list option"

record UserReceipt =
  link_id :: jsstring
  link_user_id :: jsstring
  link_receipt_id :: jsstring
  link_added_at :: jsstring
  link_notes :: "jsstring option"

record UserReceiptWithDetails = Receipt +
  user_receipt_id :: jsstring
  added_at :: jsstring
  receipt_notes :: "jsstring option"

subsection \<open>Queries and deletions of \<open>receipt-storage.ts\<close>\<close>

definition rowToReceipt :: "ReceiptRow \<Rightarrow> Receipt" where
  "rowToReceipt row =
     \<lparr>r_id = r_id row, store_name = store_name row, date = date row, time = time row,
      subtotal = subtotal row, tax = tax row, total_amount = total_amount row,
      currency = currency row, payment_method = payment_method row,
      raw_response = raw_response row, created_at = created_at row, items = None\<rparr>"

definition rowToReceiptItem :: "ReceiptItemRow \<Rightarrow> ReceiptItem" where
  "rowToReceiptItem row =
     \<lparr>item_id = Some (ri_id row), item_receipt_id = Some (ri_receipt_id row),
      name = ri_name row, quantity = ri_quantity row, unit_price = ri_unit_price row,
      total_price = ri_total_price row, category = ri_category row\<rparr>"

definition getReceiptItems :: "database \<Rightarrow> jsstring \<Rightarrow> ReceiptItem list" where
  "getReceiptItems d receiptId =
     map rowToReceiptItem (filter (\<lambda>i. ri_receipt_id i = receiptId) (receipt_items d))"

text \<open>
  \<open>DELETE FROM receipts WHERE id = ?\<close>. The line items and the ownership links of a
  deleted receipt go with it (ON DELETE CASCADE). The result is \<open>changes > 0\<close>.
\<close>

definition deleteReceipt :: "jsstring \<Rightarrow> database \<Rightarrow> bool \<times> database" where
  "deleteReceipt rid d =
     (if rid \<in> set (map r_id (receipts d))
      then (True,
            d\<lparr>receipts := filter (\<lambda>r. r_id r \<noteq> rid) (receipts d),
              receipt_items := filter (\<lambda>i. ri_receipt_id i \<noteq> rid) (receipt_items d),
              user_receipts := filter (\<lambda>l. ur_receipt_id l \<noteq> rid) (user_receipts d)\<rparr>)
      else (False, d))"

text \<open>\<open>DELETE FROM user_receipts WHERE user_id = ? AND receipt_id = ?\<close>.\<close>

definition unlinkReceiptFromUser :: "jsstring \<Rightarrow> jsstring \<Rightarrow> database \<Rightarrow> bool \<times> database" where
  "unlinkReceiptFromUser userId receiptId d =
     (\<exists>l \<in> set (user_receipts d). ur_user_id l = userId \<and> ur_receipt_id l = receiptId,
      d\<lparr>user_receipts :=
          filter (\<lambda>l. \<not> (ur_user_id l = userId \<and> ur_receipt_id l = receiptId))
            (user_receipts d)\<rparr>)"

text \<open>
  The join of \<open>getUserReceipts\<close> and \<open>getUserReceiptStats\<close>:
  \<open>receipts r INNER JOIN user_receipts ur ON r.id = ur.receipt_id WHERE ur.user_id = ?\<close>.
\<close>

definition joined_rows :: "database \<Rightarrow> jsstring \<Rightarrow> (ReceiptRow \<times> UserReceiptRow) list" where
  "joined_rows d userId =
     concat (map (\<lambda>l. map (\<lambda>r. (r, l)) (filter (\<lambda>r. r_id r = ur_receipt_id l) (receipts d)))
              (filter (\<lambda>l. ur_user_id l = userId) (user_receipts d)))"

text \<open>
  \<open>ORDER BY ur.added_at DESC\<close>. The column is TEXT, compared code unit by code unit; on
  the ISO timestamps that \<open>linkReceiptToUser\<close> writes this is the order of time. SQL
  leaves the order of rows with equal keys open; here they keep the order of the join.
\<close>

fun insert_desc :: "('a \<Rightarrow> 'k::linorder) \<Rightarrow> 'a \<Rightarrow> 'a list \<Rightarrow> 'a list" where
  "insert_desc k x [] = [x]"
| "insert_desc k x (y # ys) = (if k y \<le> k x then x # y # ys else y # insert_desc k x ys)"

definition order_by_desc :: "('a \<Rightarrow> 'k::linorder) \<Rightarrow> 'a list \<Rightarrow> 'a list" where
  "order_by_desc k xs = foldr (insert_desc k) xs []"

definition toDetails :: "database \<Rightarrow> ReceiptRow \<times> UserReceiptRow \<Rightarrow> UserReceiptWithDetails" where
  "toDetails d p =
     (case p of (row, l) \<Rightarrow>
        \<lparr>r_id = r_id row, store_name = store_name row, date = date row, time = time row,
         subtotal = subtotal row, tax = tax row, total_amount = total_amount row,
         currency = currency row, payment_method = payment_method row,
         raw_response = raw_response row, created_at = created_at row,
         items = Some (getReceiptItems d (r_id row)),
         user_receipt_id = ur_id l, added_at = ur_added_at l, receipt_notes = ur_notes l\<rparr>)"

definition getUserReceipts :: "database \<Rightarrow> jsstring \<Rightarrow> UserReceiptWithDetails list" where
  "getUserReceipts d userId =
     map (toDetails d) (order_by_desc (\<lambda>p. ur_added_at (snd p)) (joined_rows d userId))"

subsection \<open>The session directory's statements (\<open>telegram-users.ts\<close>)\<close>

definition findTelegramUser :: "database \<Rightarrow> jsstring \<Rightarrow> TelegramUser option" where
  "findTelegramUser d chatId = find (\<lambda>row. chat_id row = chatId) (telegram_users d)"

text \<open>\<open>UPDATE telegram_users SET google_api_key = ? WHERE chat_id = ?\<close>.\<close>

definition setGoogleApiKey :: "jsstring \<Rightarrow> jsstring \<Rightarrow> database \<Rightarrow> bool \<times> database" where
  "setGoogleApiKey chatId apiKey d =
     (chatId \<in> set (map chat_id (telegram_users d)),
      d\<lparr>telegram_users :=
          map (\<lambda>row. if chat_id row = chatId then row\<lparr>google_api_key := Some apiKey\<rparr> else row)
            (telegram_users d)\<rparr>)"

text \<open>\<open>user?.google_api_key || null\<close>: an empty key counts as none.\<close>

definition getGoogleApiKey :: "database \<Rightarrow> jsstring \<Rightarrow> jsstring option" where
  "getGoogleApiKey d chatId =
     (case findTelegramUser d chatId of
        None \<Rightarrow> None
      | Some u \<Rightarrow> (case google_api_key u of
                     None \<Rightarrow> None
                   | Some k \<Rightarrow> if k = [] then None else Some k))"

section \<open>The world around the handlers\<close>

text \<open>
  What the handlers cannot compute is given by the environment: the random identifiers,
  the clock, the salted password hash, the answers of the chat transport and of the
  extraction service, and the platform's conversions. A call that can differ from one
  use to the next takes the number of such calls made before it (\<open>tick\<close>), so nothing
  is assumed about its results: identifiers may collide and every transport or
  extraction call may throw.
\<close>

datatype bridge_request = AnalyzeImage jsstring | AnalyzeText jsstring

record env =
  randomUUID_at :: "nat \<Rightarrow> jsstring"
  toISOString_at :: "nat \<Rightarrow> jsstring"
  hashPassword_at :: "nat \<Rightarrow> jsstring \<Rightarrow> jsstring"
  apiRequest_at :: "nat \<Rightarrow> exn option"
  getFile_at :: "nat \<Rightarrow> jsstring \<Rightarrow> exn + jsstring option"
  downloadFileBuffer_at :: "nat \<Rightarrow> jsstring \<Rightarrow> exn + 8 word list"
  generateContent_at :: "nat \<Rightarrow> jsstring \<Rightarrow> bridge_request \<Rightarrow> exn + jsstring"
  GOOGLE_API_KEY :: "jsstring option"
  JSON_parse :: "jsstring \<Rightarrow> parse_result"
  JSON_stringify :: "ReceiptAnalysisResult \<Rightarrow> jsstring"
  toString_base64 :: "8 word list \<Rightarrow> jsstring"
  Number_toString :: "number \<Rightarrow> jsstring"
  toFixed2 :: "number \<Rightarrow> jsstring"
  SUM_REAL :: "number list \<Rightarrow> number option"
  AVG_REAL :: "number list \<Rightarrow> number option"
  String_of_chat :: "int \<Rightarrow> jsstring"

subsection \<open>The statistics query of \<open>receipt-storage.ts\<close>\<close>

text \<open>
  \<open>COUNT(*)\<close>, \<open>COALESCE(SUM(r.total_amount), 0)\<close> and \<open>COALESCE(AVG(r.total_amount), 0)\<close>
  over the join. SUM and AVG skip the rows whose \<open>total_amount\<close> is NULL and are NULL when
  no row is left. On the values that are left the database engine computes them in
  floating point: \<open>SUM_REAL\<close> and \<open>AVG_REAL\<close> of the environment are the engine's
  results on these values, given in the order of the join, and NULL where the engine's
  result is not a number. Nothing is assumed about the order in which the engine adds
  the values or about its rounding.
\<close>

record ReceiptStats =
  totalReceipts :: nat
  totalAmount :: number
  averageAmount :: number

definition non_null_totals :: "database \<Rightarrow> jsstring \<Rightarrow> number list" where
  "non_null_totals d userId =
     concat (map (\<lambda>p. case total_amount (fst p) of None \<Rightarrow> [] | Some t \<Rightarrow> [t])
              (joined_rows d userId))"

definition sql_SUM :: "env \<Rightarrow> number list \<Rightarrow> number option" where
  "sql_SUM E ts = (if ts = [] then None else SUM_REAL E ts)"

definition sql_AVG :: "env \<Rightarrow> number list \<Rightarrow> number option" where
  "sql_AVG E ts = (if ts = [] then None else AVG_REAL E ts)"

text \<open>\<open>COALESCE(v, 0)\<close>.\<close>

definition coalesce0 :: "number option \<Rightarrow> number" where
  "coalesce0 v = (case v of None \<Rightarrow> Finite 0 | Some x \<Rightarrow> x)"

definition getUserReceiptStats :: "env \<Rightarrow> database \<Rightarrow> jsstring \<Rightarrow> ReceiptStats" where
  "getUserReceiptStats E d userId =
     (let ts = non_null_totals d userId in
      \<lparr>totalReceipts = length (joined_rows d userId),
       totalAmount = coalesce0 (sql_SUM E ts),
       averageAmount = coalesce0 (sql_AVG E ts)\<rparr>)"

text \<open>
  The state: the database, the number of environment calls made, the messages and chat
  actions the transport has accepted, and the requests made to the extraction service,
  each with the key it used and the answer it got.
\<close>

record world =
  db :: database
  tick :: nat
  sent :: "(int \<times> jsstring) list"
  chat_actions :: "(int \<times> jsstring) list"
  bridge_calls :: "(jsstring \<times> bridge_request \<times> (exn + jsstring)) list"

type_synonym 'a M = "world \<Rightarrow> (exn + 'a) \<times> world"

definition return :: "'a \<Rightarrow> 'a M" where
  "return x w = (Inr x, w)"

definition bind :: "'a M \<Rightarrow> ('a \<Rightarrow> 'b M) \<Rightarrow> 'b M" where
  "bind m f w = (case m w of (Inl e, w') \<Rightarrow> (Inl e, w') | (Inr x, w') \<Rightarrow> f x w')"

definition throw :: "exn \<Rightarrow> 'a M" where
  "throw e w = (Inl e, w)"

text \<open>\<open>try { m } catch (err) { h(err) }\<close>.\<close>

definition try_catch :: "'a M \<Rightarrow> (exn \<Rightarrow> 'a M) \<Rightarrow> 'a M" where
  "try_catch m h w = (case m w of (Inl e, w') \<Rightarrow> h e w' | (Inr x, w') \<Rightarrow> (Inr x, w'))"

text \<open>A statement that changes the database or throws.\<close>

definition run_stmt :: "(database \<Rightarrow> exn + database) \<Rightarrow> unit M" where
  "run_stmt f w = (case f (db w) of Inl e \<Rightarrow> (Inl e, w) | Inr d \<Rightarrow> (Inr (), w\<lparr>db := d\<rparr>))"

text \<open>A statement that changes the database and reports \<open>changes > 0\<close>.\<close>

definition run_update :: "(database \<Rightarrow> bool \<times> database) \<Rightarrow> bool M" where
  "run_update f w = (Inr (fst (f (db w))), w\<lparr>db := snd (f (db w))\<rparr>)"

text \<open>\<open>db.transaction(body)()\<close>: when the body throws, the database is rolled back.\<close>

definition transaction :: "'a M \<Rightarrow> 'a M" where
  "transaction body w =
     (case body w of (Inl e, w') \<Rightarrow> (Inl e, w'\<lparr>db := db w\<rparr>) | (Inr x, w') \<Rightarrow> (Inr x, w'))"

definition randomUUID :: "env \<Rightarrow> jsstring M" where
  "randomUUID E w = (Inr (randomUUID_at E (tick w)), w\<lparr>tick := Suc (tick w)\<rparr>)"

text \<open>\<open>new Date().toISOString()\<close>.\<close>

definition toISOString_now :: "env \<Rightarrow> jsstring M" where
  "toISOString_now E w = (Inr (toISOString_at E (tick w)), w\<lparr>tick := Suc (tick w)\<rparr>)"

definition hashPassword :: "env \<Rightarrow> jsstring \<Rightarrow> jsstring M" where
  "hashPassword E password w =
     (Inr (hashPassword_at E (tick w) password), w\<lparr>tick := Suc (tick w)\<rparr>)"

subsection \<open>The transport (\<open>telegram-bot.ts\<close>)\<close>

definition sendMessage :: "env \<Rightarrow> int \<Rightarrow> jsstring \<Rightarrow> unit M" where
  "sendMessage E chatId txt w =
     (case apiRequest_at E (tick w) of
        None \<Rightarrow> (Inr (), w\<lparr>tick := Suc (tick w), sent := sent w @ [(chatId, txt)]\<rparr>)
      | Some e \<Rightarrow> (Inl e, w\<lparr>tick := Suc (tick w)\<rparr>))"

definition sendChatAction :: "env \<Rightarrow> int \<Rightarrow> jsstring \<Rightarrow> unit M" where
  "sendChatAction E chatId action w =
     (case apiRequest_at E (tick w) of
        None \<Rightarrow> (Inr (), w\<lparr>tick := Suc (tick w), chat_actions := chat_actions w @ [(chatId, action)]\<rparr>)
      | Some e \<Rightarrow> (Inl e, w\<lparr>tick := Suc (tick w)\<rparr>))"

text \<open>\<open>getFile\<close> resolves to a file whose \<open>file_path\<close> may be absent.\<close>

definition getFile :: "env \<Rightarrow> jsstring \<Rightarrow> jsstring option M" where
  "getFile E fileId w = (getFile_at E (tick w) fileId, w\<lparr>tick := Suc (tick w)\<rparr>)"

definition downloadFileBuffer :: "env \<Rightarrow> jsstring \<Rightarrow> 8 word list M" where
  "downloadFileBuffer E filePath w =
     (downloadFileBuffer_at E (tick w) filePath, w\<lparr>tick := Suc (tick w)\<rparr>)"

subsection \<open>The extraction service (\<open>receipt.ts\<close>)\<close>

text \<open>
  \<open>createGeminiModel\<close> chooses the key: \<open>apiKey || process.env.GOOGLE_API_KEY || ""\<close>.
  The model is represented by that key. A request to the service is answered by the
  environment and recorded with the key and the answer; how the service reads the image
  out of the data URI is not modelled.
\<close>

definition truthy :: "jsstring option \<Rightarrow> bool" where
  "truthy v = (case v of None \<Rightarrow> False | Some s \<Rightarrow> s \<noteq> [])"

text \<open>\<open>v || d\<close> on a string that may be absent: the empty string counts as absent.\<close>

definition or_else :: "jsstring option \<Rightarrow> jsstring \<Rightarrow> jsstring" where
  "or_else v d = (case v of None \<Rightarrow> d | Some s \<Rightarrow> if s = [] then d else s)"

definition createGeminiModel :: "env \<Rightarrow> jsstring option \<Rightarrow> jsstring" where
  "createGeminiModel E apiKey = or_else apiKey (or_else (GOOGLE_API_KEY E) [])"

definition generateContent :: "env \<Rightarrow> jsstring \<Rightarrow> bridge_request \<Rightarrow> jsstring M" where
  "generateContent E model req w =
     (generateContent_at E (tick w) model req,
      w\<lparr>tick := Suc (tick w),
        bridge_calls := bridge_calls w @ [(model, req, generateContent_at E (tick w) model req)]\<rparr>)"

definition analyzeReceiptImage :: "env \<Rightarrow> jsstring \<Rightarrow> jsstring option \<Rightarrow> jsstring M" where
  "analyzeReceiptImage E imageData apiKey =
     generateContent E (createGeminiModel E apiKey) (AnalyzeImage imageData)"

section \<open>Accounts and sessions\<close>

text \<open>\<open>createUser\<close> of \<open>auth.ts\<close>; it returns the row it inserted.\<close>

definition createUser :: "env \<Rightarrow> jsstring \<Rightarrow> jsstring \<Rightarrow> jsstring \<Rightarrow> UserRow M" where
  "createUser E email password nm =
     bind (randomUUID E) (\<lambda>uid.
     bind (hashPassword E password) (\<lambda>hashedPassword.
     bind (toISOString_now E) (\<lambda>createdAt.
       let row = \<lparr>u_id = uid, u_email = email, u_password = hashedPassword, u_name = nm,
                  u_created_at = createdAt\<rparr>
       in bind (run_stmt (insert_user row)) (\<lambda>_. return row))))"

definition createTelegramUser :: "env \<Rightarrow> jsstring \<Rightarrow> jsstring \<Rightarrow> TelegramUser M" where
  "createTelegramUser E chatId nm =
     (let email = lit ''tg_'' @ chatId @ lit ''@telegram.local'' in
      bind (randomUUID E) (\<lambda>password.
      bind (createUser E email password nm) (\<lambda>user.
      bind (toISOString_now E) (\<lambda>createdAt.
        let row = \<lparr>chat_id = chatId, user_id = u_id user, google_api_key = None,
                   tu_created_at = createdAt\<rparr>
        in bind (run_stmt (insert_telegram_user row)) (\<lambda>_. return row)))))"

definition getOrCreateTelegramUser :: "env \<Rightarrow> jsstring \<Rightarrow> jsstring \<Rightarrow> TelegramUser M" where
  "getOrCreateTelegramUser E chatId nm w =
     (case findTelegramUser (db w) chatId of
        Some existing \<Rightarrow> (Inr existing, w)
      | None \<Rightarrow> createTelegramUser E chatId nm w)"

section \<open>Creating receipts\<close>

text \<open>
  \<open>createReceipt\<close>: the receipt and its line items are inserted in one transaction, each
  item under a fresh random id. \<open>rawResponse || JSON.stringify(analysisResult)\<close> is the
  stored payload.
\<close>

fun insertItems :: "env \<Rightarrow> jsstring \<Rightarrow> ReceiptItem list \<Rightarrow> unit M" where
  "insertItems E rid [] = return ()"
| "insertItems E rid (item # rest) =
     bind (randomUUID E) (\<lambda>itemId.
     bind (run_stmt (insert_receipt_item
             \<lparr>ri_id = itemId, ri_receipt_id = rid, ri_name = name item,
              ri_quantity = quantity item, ri_unit_price = unit_price item,
              ri_total_price = total_price item, ri_category = category item\<rparr>)) (\<lambda>_.
       insertItems E rid rest))"

definition createReceipt :: "env \<Rightarrow> ReceiptAnalysisResult \<Rightarrow> jsstring option \<Rightarrow> Receipt M" where
  "createReceipt E analysisResult rawResponse =
     bind (randomUUID E) (\<lambda>rid.
     bind (toISOString_now E) (\<lambda>createdAt.
       let raw = or_else rawResponse (JSON_stringify E analysisResult) in
       bind (transaction
               (bind (run_stmt (insert_receipt
                        \<lparr>r_id = rid, store_name = ar_store_name analysisResult,
                         date = ar_date analysisResult, time = ar_time analysisResult,
                         subtotal = ar_subtotal analysisResult, tax = ar_tax analysisResult,
                         total_amount = ar_total_amount analysisResult,
                         currency = ar_currency analysisResult,
                         payment_method = ar_payment_method analysisResult,
                         raw_response = Some raw, created_at = createdAt\<rparr>)) (\<lambda>_.
                  case ar_items analysisResult of
                    None \<Rightarrow> throw (TypeError (lit ''analysisResult.items is not iterable''))
                  | Some its \<Rightarrow> insertItems E rid its))) (\<lambda>_.
         return
           \<lparr>r_id = rid, store_name = ar_store_name analysisResult,
            date = ar_date analysisResult, time = ar_time analysisResult,
            subtotal = ar_subtotal analysisResult, tax = ar_tax analysisResult,
            total_amount = ar_total_amount analysisResult,
            currency = ar_currency analysisResult,
            payment_method = ar_payment_method analysisResult,
            raw_response = Some raw, created_at = createdAt,
            items = ar_items analysisResult\<rparr>)))"

text \<open>\<open>notes || null\<close>: empty notes are stored as NULL.\<close>

definition or_null :: "jsstring option \<Rightarrow> jsstring option" where
  "or_null v = (if truthy v then v else None)"

definition linkReceiptToUser :: "env \<Rightarrow> jsstring \<Rightarrow> jsstring \<Rightarrow> jsstring option \<Rightarrow> UserReceipt M" where
  "linkReceiptToUser E userId receiptId notes0 =
     bind (randomUUID E) (\<lambda>lid.
     bind (toISOString_now E) (\<lambda>addedAt.
     bind (run_stmt (insert_user_receipt
             \<lparr>ur_id = lid, ur_user_id = userId, ur_receipt_id = receiptId,
              ur_added_at = addedAt, ur_notes = or_null notes0\<rparr>)) (\<lambda>_.
       return \<lparr>link_id = lid, link_user_id = userId, link_receipt_id = receiptId,
               link_added_at = addedAt, link_notes = or_null notes0\<rparr>)))"

definition createReceiptForUser ::
    "env \<Rightarrow> jsstring \<Rightarrow> ReceiptAnalysisResult \<Rightarrow> jsstring option \<Rightarrow> jsstring option
       \<Rightarrow> UserReceiptWithDetails M" where
  "createReceiptForUser E userId analysisResult notes0 rawResponse =
     bind (createReceipt E analysisResult rawResponse) (\<lambda>receipt.
     bind (linkReceiptToUser E userId (r_id receipt) notes0) (\<lambda>userReceipt.
       return
         \<lparr>r_id = r_id receipt, store_name = store_name receipt, date = date receipt,
          time = time receipt, subtotal = subtotal receipt, tax = tax receipt,
          total_amount = total_amount receipt, currency = currency receipt,
          payment_method = payment_method receipt, raw_response = raw_response receipt,
          created_at = created_at receipt, items = items receipt,
          user_receipt_id = link_id userReceipt, added_at = link_added_at userReceipt,
          receipt_notes = link_notes userReceipt\<rparr>))"

section \<open>The bot's messages\<close>

record TgFrom =
  first_name :: jsstring
  last_name :: "jsstring option"

record TgPhotoSize =
  file_id :: jsstring
  width :: nat
  height :: nat

text \<open>
  \<open>TgMessage\<close>, with the fields the handlers read: \<open>from\<close>, \<open>chat.id\<close>, \<open>text\<close>, \<open>photo\<close>
  and \<open>caption\<close>.
\<close>

record TgMessage =
  msg_from :: "TgFrom option"
  msg_chat_id :: int
  msg_text :: "jsstring option"
  msg_photo :: "TgPhotoSize list option"
  msg_caption :: "jsstring option"

subsection \<open>The reply texts of \<open>telegram-handlers.ts\<close>\<close>

definition txt_register_first :: jsstring where
  "txt_register_first =
     [0x26A0, 0xFE0F] @ lit '' '' @ [0x8BF7, 0x5148, 0x4F7F, 0x7528] @ lit '' /start '' @
     [0x6CE8, 0x518C, 0x3002]"

definition txt_setkey_usage :: jsstring where
  "txt_setkey_usage =
     [0x26A0, 0xFE0F] @ lit '' '' @ [0x8BF7, 0x63D0, 0x4F9B] @ lit '' API Key:'' @ [0xA] @
     lit ''<code>/setkey YOUR_GOOGLE_API_KEY</code>''"

definition txt_setkey_updated :: jsstring where
  "txt_setkey_updated =
     [0x2705] @ lit '' Google API Key '' @ [0x5DF2, 0x66F4, 0x65B0, 0xFF01, 0x73B0, 0x5728,
     0x4F60, 0x53EF, 0x4EE5, 0x53D1, 0x9001, 0x8D26, 0x5355, 0x7167, 0x7247, 0x6216, 0x6587,
     0x5B57, 0x6765, 0x5206, 0x6790, 0x4E86, 0x3002]"

definition txt_no_receipts :: jsstring where
  "txt_no_receipts =
     [0xD83D, 0xDCED] @ lit '' '' @ [0x6682, 0x65E0, 0x8D26, 0x5355, 0x8BB0, 0x5F55, 0x3002,
     0x53D1, 0x9001, 0x4E00, 0x5F20, 0x8D26, 0x5355, 0x7167, 0x7247, 0x5F00, 0x59CB, 0x5427,
     0xFF01]"

definition txt_receipt_not_found :: jsstring where
  "txt_receipt_not_found =
     [0x274C] @ lit '' '' @ [0x672A, 0x627E, 0x5230, 0x8BE5, 0x8D26, 0x5355, 0x3002, 0x4F7F,
     0x7528] @ lit '' /history '' @ [0x67E5, 0x770B, 0x6240, 0x6709, 0x8D26, 0x5355, 0x3002]"

definition txt_delete_usage :: jsstring where
  "txt_delete_usage =
     [0x26A0, 0xFE0F] @ lit '' '' @ [0x8BF7, 0x63D0, 0x4F9B, 0x8D26, 0x5355] @ lit ''ID:'' @
     [0xA] @ lit ''<code>/delete ID'' @ [0x524D] @ lit ''8'' @ [0x4F4D] @ lit ''</code>''"

definition txt_delete_not_found :: jsstring where
  "txt_delete_not_found =
     [0x274C] @ lit '' '' @ [0x672A, 0x627E, 0x5230, 0x8BE5, 0x8D26, 0x5355, 0x3002]"

definition txt_set_key_first :: jsstring where
  "txt_set_key_first =
     [0x26A0, 0xFE0F] @ lit '' '' @ [0x8BF7, 0x5148, 0x8BBE, 0x7F6E] @
     lit '' Google API Key:'' @ [0xA] @ lit ''/setkey YOUR_API_KEY''"

definition txt_no_photo_file :: jsstring where
  "txt_no_photo_file =
     [0x274C] @ lit '' '' @ [0x65E0, 0x6CD5, 0x83B7, 0x53D6, 0x7167, 0x7247, 0x6587, 0x4EF6,
     0x3002]"

definition txt_analyzing :: jsstring where
  "txt_analyzing =
     [0xD83D, 0xDD0D] @ lit '' '' @ [0x6B63, 0x5728, 0x5206, 0x6790, 0x8D26, 0x5355] @
     lit ''...''"

definition txt_parse_error :: jsstring where
  "txt_parse_error =
     [0x274C] @ lit '' AI '' @ [0x8FD4, 0x56DE, 0x7684, 0x7ED3, 0x679C, 0x65E0, 0x6CD5,
     0x89E3, 0x6790, 0xFF0C, 0x8BF7, 0x91CD, 0x8BD5, 0x3002]"

definition txt_unknown_command :: jsstring where
  "txt_unknown_command =
     [0x2753] @ lit '' '' @ [0x672A, 0x77E5, 0x547D, 0x4EE4, 0x3002, 0x4F7F, 0x7528] @
     lit '' /help '' @ [0x67E5, 0x770B, 0x53EF, 0x7528, 0x547D, 0x4EE4, 0x3002]"

definition txt_unknown_error :: jsstring where
  "txt_unknown_error =
     [0x672A, 0x77E5, 0x9519, 0x8BEF]"

definition txt_help :: jsstring where
  "txt_help =
     [0xD83D, 0xDCD6] @ lit '' <b>UniBon '' @ [0x4F7F, 0x7528, 0x5E2E, 0x52A9] @
     lit ''</b>'' @ [0xA, 0xA, 0xD83D, 0xDCF8] @ lit '' <b>'' @ [0x5206, 0x6790, 0x8D26,
     0x5355] @ lit '':</b> '' @ [0x76F4, 0x63A5, 0x53D1, 0x9001, 0x8D26, 0x5355, 0x7167,
     0x7247, 0xA, 0x270F, 0xFE0F] @ lit '' <b>'' @ [0x6587, 0x5B57, 0x8BB0, 0x8D26] @
     lit '':</b> '' @ [0x76F4, 0x63A5, 0x53D1, 0x9001, 0x6587, 0x5B57, 0x63CF, 0x8FF0,
     0xFF08, 0x5982, 0x22, 0x661F, 0x5DF4, 0x514B] @ lit '' '' @ [0x62FF, 0x94C1] @
     lit '' 28'' @ [0x5143, 0x22, 0xFF09, 0xA, 0xA, 0xD83D, 0xDCCC] @ lit '' <b>'' @
     [0x547D, 0x4EE4, 0x5217, 0x8868] @ lit '':</b>'' @ [0xA] @ lit ''/start - '' @ [0x5F00,
     0x59CB, 0x4F7F, 0x7528, 0xA] @ lit ''/setkey KEY - '' @ [0x8BBE, 0x7F6E] @
     lit '' Google API Key'' @ [0xA] @ lit ''/stats - '' @ [0x6D88, 0x8D39, 0x7EDF, 0x8BA1,
     0xA] @ lit ''/history - '' @ [0x6700, 0x8FD1, 0x8D26, 0x5355, 0xA] @
     lit ''/receipt_ID - '' @ [0x67E5, 0x770B, 0x8D26, 0x5355, 0x8BE6, 0x60C5, 0xFF08] @
     lit ''ID'' @ [0x4E3A, 0x524D] @ lit ''8'' @ [0x4F4D, 0xFF09, 0xA] @
     lit ''/delete ID - '' @ [0x5220, 0x9664, 0x8D26, 0x5355, 0xA] @ lit ''/help - '' @
     [0x5E2E, 0x52A9, 0x4FE1, 0x606F]"

text \<open>\<open>parts.join(' ')\<close>.\<close>

fun join_space :: "jsstring list \<Rightarrow> jsstring" where
  "join_space [] = []"
| "join_space [p] = p"
| "join_space (p # q # ps) = p @ lit '' '' @ join_space (q # ps)"

text \<open>\<open>[first_name, last_name].filter(Boolean).join(' ')\<close>, or \<open>User\<close> without a sender.\<close>

definition getUserName :: "TgMessage \<Rightarrow> jsstring" where
  "getUserName msg =
     (case msg_from msg of
        None \<Rightarrow> lit ''User''
      | Some f \<Rightarrow>
          join_space (filter (\<lambda>s. s \<noteq> [])
            (first_name f # (case last_name f of None \<Rightarrow> [] | Some l \<Rightarrow> [l]))))"

text \<open>\<open>${v ?? d}\<close> on a number that may be null.\<close>

definition num_or :: "env \<Rightarrow> number option \<Rightarrow> jsstring \<Rightarrow> jsstring" where
  "num_or E v d = (case v of None \<Rightarrow> d | Some x \<Rightarrow> Number_toString E x)"

definition formatItem :: "env \<Rightarrow> ReceiptItem \<Rightarrow> jsstring" where
  "formatItem E item =
     (lit ''  '' @ [0x2022] @ lit '' '') @ name item @ (lit ''  '' @ [0xD7]) @ Number_toString E (quantity item) @
     lit ''  '' @ Number_toString E (total_price item) @ [0xA]"

definition formatReceipt :: "env \<Rightarrow> UserReceiptWithDetails \<Rightarrow> jsstring" where
  "formatReceipt E r =
     ([0xD83E, 0xDDFE] @ lit '' <b>'') @ or_else (store_name r) ([0x672A, 0x77E5, 0x5546, 0x5E97]) @
     lit ''</b>'' @ [0xA] @
     ([0xD83D, 0xDCC5] @ lit '' '') @ or_else (date r) ([0x672A, 0x77E5, 0x65E5, 0x671F]) @
     (lit ''  '' @ [0xD83D, 0xDD50] @ lit '' '') @ or_else (time r) [] @ [0xA] @
     (case items r of
        None \<Rightarrow> []
      | Some its \<Rightarrow>
          if its = [] then []
          else ([0xA, 0xD83D, 0xDCE6] @ lit '' <b>'' @ [0x5546, 0x54C1, 0x660E, 0x7EC6] @
                lit '':</b>'' @ [0xA]) @ concat (map (formatItem E) its)) @
     (case subtotal r of None \<Rightarrow> [] | Some x \<Rightarrow> ([0xA, 0x5C0F, 0x8BA1] @ lit '': '') @ Number_toString E x) @
     (case tax r of None \<Rightarrow> [] | Some x \<Rightarrow> (lit ''  '' @ [0x7A0E] @ lit '': '') @ Number_toString E x) @
     ([0xA, 0xD83D, 0xDCB0] @ lit '' <b>'' @ [0x603B, 0x8BA1] @ lit '': '') @ num_or E (total_amount r) ([0x672A, 0x77E5]) @
     lit '' '' @ or_else (currency r) [] @ lit ''</b>'' @
     (if truthy (payment_method r) then ([0xA, 0xD83D, 0xDCB3] @ lit '' '') @ or_else (payment_method r) [] else [])"

section \<open>The command handlers\<close>

text \<open>A query reads the database as it is now.\<close>

definition query :: "(database \<Rightarrow> 'a) \<Rightarrow> 'a M" where
  "query f w = (Inr (f (db w)), w)"

definition handleStart :: "env \<Rightarrow> TgMessage \<Rightarrow> unit M" where
  "handleStart E msg =
     (let chatId = msg_chat_id msg; nm = getUserName msg in
      bind (getOrCreateTelegramUser E (String_of_chat E chatId) nm) (\<lambda>_.
        sendMessage E chatId
          (([0xD83D, 0xDC4B] @ lit '' '' @ [0x4F60, 0x597D] @ lit '' <b>'') @ nm @
           (lit ''</b>'' @ [0xFF01, 0x6B22, 0x8FCE, 0x4F7F, 0x7528] @ lit '' UniBon '' @
             [0x8D26, 0x5355, 0x7BA1, 0x7406, 0x52A9, 0x624B, 0x3002, 0xA, 0xA, 0xD83D,
             0xDCCB] @ lit '' <b>'' @ [0x4F7F, 0x7528, 0x6B65, 0x9AA4] @ lit '':</b>'' @
             [0xA] @ lit ''1'' @ [0xFE0F, 0x20E3] @ lit '' '' @ [0x5148, 0x8BBE, 0x7F6E,
             0x4F60, 0x7684] @ lit '' Google API Key:'' @ [0xA] @
             lit ''   /setkey YOUR_API_KEY'' @ [0xA, 0xA] @ lit ''2'' @ [0xFE0F, 0x20E3] @
             lit '' '' @ [0x7136, 0x540E, 0x76F4, 0x63A5, 0x53D1, 0x9001, 0x8D26, 0x5355,
             0x7167, 0x7247, 0x6216, 0x6587, 0x5B57, 0x63CF, 0x8FF0, 0xA, 0xA, 0xD83D,
             0xDCCC] @ lit '' <b>'' @ [0x53EF, 0x7528, 0x547D, 0x4EE4] @ lit '':</b>'' @
             [0xA] @ lit ''/setkey - '' @ [0x8BBE, 0x7F6E] @ lit ''/'' @ [0x66F4, 0x65B0] @
             lit '' Google API Key'' @ [0xA] @ lit ''/stats - '' @ [0x67E5, 0x770B, 0x6D88,
             0x8D39, 0x7EDF, 0x8BA1, 0xA] @ lit ''/history - '' @ [0x67E5, 0x770B, 0x6700,
             0x8FD1, 0x8D26, 0x5355, 0xA] @ lit ''/help - '' @ [0x5E2E, 0x52A9, 0x4FE1,
             0x606F]))))"

definition handleSetKey :: "env \<Rightarrow> TgMessage \<Rightarrow> unit M" where
  "handleSetKey E msg =
     (let chatId = msg_chat_id msg; nm = getUserName msg in
      bind (getOrCreateTelegramUser E (String_of_chat E chatId) nm) (\<lambda>_.
        let txt = or_else (msg_text msg) [];
            parts = split_ws txt
        in if length parts < 2 \<or> parts ! 1 = []
           then sendMessage E chatId txt_setkey_usage
           else let apiKey = parts ! 1 in
                bind (run_update (setGoogleApiKey (String_of_chat E chatId) apiKey)) (\<lambda>_.
                  sendMessage E chatId txt_setkey_updated)))"

definition handleStats :: "env \<Rightarrow> TgMessage \<Rightarrow> unit M" where
  "handleStats E msg =
     (let chatId = msg_chat_id msg in
      bind (query (\<lambda>d. findTelegramUser d (String_of_chat E chatId))) (\<lambda>tgUser.
        case tgUser of
          None \<Rightarrow> sendMessage E chatId txt_register_first
        | Some u \<Rightarrow>
            bind (query (\<lambda>d. getUserReceiptStats E d (user_id u))) (\<lambda>stats.
              sendMessage E chatId
                (([0xD83D, 0xDCCA] @ lit '' <b>'' @ [0x6D88, 0x8D39, 0x7EDF, 0x8BA1] @
                  lit ''</b>'' @ [0xA, 0xA, 0xD83E, 0xDDFE] @ lit '' '' @ [0x8D26, 0x5355,
                  0x603B, 0x6570] @ lit '': <b>'') @ Number_toString E (Finite (of_nat (totalReceipts stats))) @
                 (lit ''</b>'' @ [0xA, 0xD83D, 0xDCB0] @ lit '' '' @ [0x603B, 0x6D88,
                  0x8D39] @ lit '': <b>'') @ toFixed2 E (totalAmount stats) @
                 (lit ''</b>'' @ [0xA, 0xD83D, 0xDCC8] @ lit '' '' @ [0x5E73, 0x5747,
                  0x6BCF, 0x5355] @ lit '': <b>'') @ toFixed2 E (averageAmount stats) @
                 lit ''</b>''))))"

text \<open>One line of the history: the first 8 code units of the id, date, store, total, currency.\<close>

definition historyLine :: "env \<Rightarrow> UserReceiptWithDetails \<Rightarrow> jsstring" where
  "historyLine E r =
     (let shortId = substring0 (r_id r) 8 in
      ([0xD83E, 0xDDFE] @ lit '' <code>'') @ shortId @ lit ''</code> | '' @
      or_else (date r) ([0x672A, 0x77E5]) @ lit '' | '' @
      or_else (store_name r) ([0x672A, 0x77E5]) @ lit '' | '' @
      num_or E (total_amount r) (lit ''?'') @ lit '' '' @ or_else (currency r) [] @ [0xA])"

definition historyText :: "env \<Rightarrow> UserReceiptWithDetails list \<Rightarrow> jsstring" where
  "historyText E recent =
     ([0xD83D, 0xDCCB] @ lit '' <b>'' @ [0x6700, 0x8FD1] @ lit '' '') @ Number_toString E (Finite (of_nat (length recent))) @
     (lit '' '' @ [0x6761, 0x8D26, 0x5355] @ lit ''</b>'' @ [0xA, 0xA]) @
     concat (map (historyLine E) recent) @
     ([0xA, 0x67E5, 0x770B, 0x8BE6, 0x60C5] @ lit '': /receipt_ID'' @ [0x524D] @ lit ''8'' @
      [0x4F4D])"

definition handleHistory :: "env \<Rightarrow> TgMessage \<Rightarrow> unit M" where
  "handleHistory E msg =
     (let chatId = msg_chat_id msg in
      bind (query (\<lambda>d. findTelegramUser d (String_of_chat E chatId))) (\<lambda>tgUser.
        case tgUser of
          None \<Rightarrow> sendMessage E chatId txt_register_first
        | Some u \<Rightarrow>
            bind (query (\<lambda>d. getUserReceipts d (user_id u))) (\<lambda>rs.
              if length rs = 0 then sendMessage E chatId txt_no_receipts
              else let recent = take 10 rs in
                   sendMessage E chatId (historyText E recent))))"

definition handleReceiptDetail :: "env \<Rightarrow> TgMessage \<Rightarrow> jsstring \<Rightarrow> unit M" where
  "handleReceiptDetail E msg receiptIdPrefix =
     (let chatId = msg_chat_id msg in
      bind (query (\<lambda>d. findTelegramUser d (String_of_chat E chatId))) (\<lambda>tgUser.
        case tgUser of
          None \<Rightarrow> sendMessage E chatId txt_register_first
        | Some u \<Rightarrow>
            bind (query (\<lambda>d. getUserReceipts d (user_id u))) (\<lambda>rs.
              case find (\<lambda>r. startsWith (r_id r) receiptIdPrefix) rs of
                None \<Rightarrow> sendMessage E chatId txt_receipt_not_found
              | Some found \<Rightarrow> sendMessage E chatId (formatReceipt E found))))"

text \<open>The confirmation of a deletion, with \<open>match.id.substring(0, 8)\<close>.\<close>

definition deletedText :: "jsstring \<Rightarrow> jsstring" where
  "deletedText rid =
     [0x2705] @ lit '' '' @ [0x8D26, 0x5355] @ lit '' <code>'' @ substring0 rid 8 @
     lit ''</code> '' @ [0x5DF2, 0x5220, 0x9664, 0x3002]"

definition handleDelete :: "env \<Rightarrow> TgMessage \<Rightarrow> unit M" where
  "handleDelete E msg =
     (let chatId = msg_chat_id msg in
      bind (query (\<lambda>d. findTelegramUser d (String_of_chat E chatId))) (\<lambda>tgUser.
        case tgUser of
          None \<Rightarrow> sendMessage E chatId txt_register_first
        | Some u \<Rightarrow>
            let txt = or_else (msg_text msg) [];
                parts = split_ws txt
            in if length parts < 2 then sendMessage E chatId txt_delete_usage
               else let idPrefix = parts ! 1 in
                    bind (query (\<lambda>d. getUserReceipts d (user_id u))) (\<lambda>rs.
                      case find (\<lambda>r. startsWith (r_id r) idPrefix) rs of
                        None \<Rightarrow> sendMessage E chatId txt_delete_not_found
                      | Some found \<Rightarrow>
                          bind (run_update (unlinkReceiptFromUser (user_id u) (r_id found))) (\<lambda>_.
                          bind (run_update (deleteReceipt (r_id found))) (\<lambda>_.
                            sendMessage E chatId (deletedText (r_id found)))))))"

definition handleHelp :: "env \<Rightarrow> TgMessage \<Rightarrow> unit M" where
  "handleHelp E msg = sendMessage E (msg_chat_id msg) txt_help"

text \<open>\<open>s.endsWith(p)\<close>.\<close>

definition endsWith :: "jsstring \<Rightarrow> jsstring \<Rightarrow> bool" where
  "endsWith s p = (length p \<le> length s \<and> drop (length s - length p) s = p)"

text \<open>
  The first lines of \<open>handlePhoto\<close> and of \<open>handleTextReceipt\<close> are the same: look the
  session up, provision it when it is missing, and look it up again.
  \<open>findTelegramUser(...)!\<close> asserts that the second lookup finds a row; reading a field of
  \<open>undefined\<close> would throw.
\<close>

definition ensureTelegramUser :: "env \<Rightarrow> TgMessage \<Rightarrow> TelegramUser M" where
  "ensureTelegramUser E msg =
     (let chatId = msg_chat_id msg in
      bind (query (\<lambda>d. findTelegramUser d (String_of_chat E chatId))) (\<lambda>tgUser.
      bind (case tgUser of
              None \<Rightarrow> bind (getOrCreateTelegramUser E (String_of_chat E chatId) (getUserName msg))
                        (\<lambda>_. return ())
            | Some _ \<Rightarrow> return ()) (\<lambda>_.
      bind (query (\<lambda>d. findTelegramUser d (String_of_chat E chatId))) (\<lambda>user.
        case user of
          None \<Rightarrow> throw (TypeError
                    (lit ''Cannot read properties of undefined (reading '' @ [0x27] @ lit ''google_api_key'' @ [0x27] @ lit '')''))
        | Some u \<Rightarrow> return u))))"

text \<open>The texts around an error the extraction reports and around a caught exception.\<close>

definition txt_photo_error_prefix :: jsstring where
  "txt_photo_error_prefix = [0x26A0, 0xFE0F] @ lit '' '' @ [0x5206, 0x6790, 0x7ED3, 0x679C] @ lit '': ''"

definition txt_text_error_prefix :: jsstring where
  "txt_text_error_prefix = [0x26A0, 0xFE0F] @ lit '' ''"

definition txt_photo_failed_prefix :: jsstring where
  "txt_photo_failed_prefix = [0x274C] @ lit '' '' @ [0x5206, 0x6790, 0x5931, 0x8D25] @ lit '': ''"

definition txt_text_failed_prefix :: jsstring where
  "txt_text_failed_prefix = [0x274C] @ lit '' '' @ [0x5904, 0x7406, 0x5931, 0x8D25] @ lit '': ''"

text \<open>The line under a stored receipt, with \<open>saved.id.substring(0, 8)\<close>.\<close>

definition savedText :: "jsstring \<Rightarrow> jsstring" where
  "savedText rid =
     [0xA, 0xA, 0x2705] @ lit '' '' @ [0x5DF2, 0x4FDD, 0x5B58] @ lit '' (ID: <code>'' @
     substring0 rid 8 @ lit ''</code>)''"

text \<open>
  The last lines of both handlers are the same up to the text in front of a reported
  error and the notes: \<open>JSON.parse\<close> of the text the extraction service returned; a
  parse failure and a truthy \<open>error\<close> field are answered and end the handler; otherwise
  the receipt is stored for the account and rendered with the first 8 code units of its
  new id.
\<close>

definition js_truthy :: "js_value \<Rightarrow> bool" where
  "js_truthy v =
     (case v of
        JUndefined \<Rightarrow> False
      | JNull \<Rightarrow> False
      | JBoolean b \<Rightarrow> b
      | JNumber n \<Rightarrow> n \<noteq> Finite 0
      | JString s \<Rightarrow> s \<noteq> []
      | JObject s \<Rightarrow> True)"

text \<open>\<open>${v}\<close> in a template literal.\<close>

definition String_of_value :: "env \<Rightarrow> js_value \<Rightarrow> jsstring" where
  "String_of_value E v =
     (case v of
        JUndefined \<Rightarrow> lit ''undefined''
      | JNull \<Rightarrow> lit ''null''
      | JBoolean b \<Rightarrow> (if b then lit ''true'' else lit ''false'')
      | JNumber n \<Rightarrow> Number_toString E n
      | JString s \<Rightarrow> s
      | JObject s \<Rightarrow> s)"

definition persistAnalysis ::
    "env \<Rightarrow> int \<Rightarrow> TelegramUser \<Rightarrow> jsstring \<Rightarrow> jsstring \<Rightarrow> jsstring option \<Rightarrow> unit M" where
  "persistAnalysis E chatId user errorPrefix rawResult notes0 =
     (case JSON_parse E rawResult of
        ParseThrows \<Rightarrow> sendMessage E chatId txt_parse_error
      | ParsedNull \<Rightarrow>
          throw (TypeError (lit ''Cannot read properties of null (reading '' @ [0x27] @
                            lit ''error'' @ [0x27] @ lit '')''))
      | Parsed analysisResult \<Rightarrow>
          if js_truthy (ar_error analysisResult)
          then sendMessage E chatId (errorPrefix @ String_of_value E (ar_error analysisResult))
          else bind (createReceiptForUser E (user_id user) analysisResult notes0 (Some rawResult))
                 (\<lambda>saved.
                    sendMessage E chatId (formatReceipt E saved @ savedText (r_id saved))))"

definition handlePhoto :: "env \<Rightarrow> TgMessage \<Rightarrow> unit M" where
  "handlePhoto E msg =
     (let chatId = msg_chat_id msg in
      bind (ensureTelegramUser E msg) (\<lambda>user.
        let apiKey = google_api_key user in
        if \<not> truthy apiKey then sendMessage E chatId txt_set_key_first
        else
          bind (sendChatAction E chatId (lit ''typing'')) (\<lambda>_.
          try_catch
            (case msg_photo msg of
               None \<Rightarrow> throw (TypeError
                         (lit ''Cannot read properties of undefined (reading '' @ [0x27] @ lit ''length'' @ [0x27] @ lit '')''))
             | Some photos \<Rightarrow>
                 if photos = []
                 then throw (TypeError
                        (lit ''Cannot read properties of undefined (reading '' @ [0x27] @ lit ''file_id'' @ [0x27] @ lit '')''))
                 else
                   let largest = last photos in
                   bind (getFile E (file_id largest)) (\<lambda>file_path.
                     if \<not> truthy file_path then sendMessage E chatId txt_no_photo_file
                     else
                       let path = or_else file_path [] in
                       bind (downloadFileBuffer E path) (\<lambda>buffer.
                         let base64 = toString_base64 E buffer;
                             mimeType = (if endsWith path (lit ''.png'')
                                         then lit ''image/png'' else lit ''image/jpeg'');
                             imageData = lit ''data:'' @ mimeType @ lit '';base64,'' @ base64
                         in
                         bind (sendMessage E chatId txt_analyzing) (\<lambda>_.
                         bind (analyzeReceiptImage E imageData apiKey) (\<lambda>rawResult.
                           persistAnalysis E chatId user
                             txt_photo_error_prefix rawResult (or_null (msg_caption msg)))))))
            (\<lambda>err.
               sendMessage E chatId
                 (txt_photo_failed_prefix @ or_else (Some (message err)) txt_unknown_error)))))"

text \<open>\<open>${msg.text}\<close> inside the prompt; an absent text prints as \<open>undefined\<close>.\<close>

definition textPrompt :: "TgMessage \<Rightarrow> jsstring" where
  "textPrompt msg =
     lit ''Analyze this text description of a receipt or expense and extract structured data. The text may be in any language. Text: '' @
     [0x22] @ (case msg_text msg of None \<Rightarrow> lit ''undefined'' | Some t \<Rightarrow> t) @ [0x22]"

definition handleTextReceipt :: "env \<Rightarrow> TgMessage \<Rightarrow> unit M" where
  "handleTextReceipt E msg =
     (let chatId = msg_chat_id msg in
      bind (ensureTelegramUser E msg) (\<lambda>user.
        let apiKey = google_api_key user in
        if \<not> truthy apiKey then sendMessage E chatId txt_set_key_first
        else
          bind (sendChatAction E chatId (lit ''typing'')) (\<lambda>_.
          try_catch
            (let model = createGeminiModel E apiKey in
             bind (generateContent E model (AnalyzeText (textPrompt msg))) (\<lambda>rawResult.
               persistAnalysis E chatId user txt_text_error_prefix rawResult None))
            (\<lambda>err.
               sendMessage E chatId
                 (txt_text_failed_prefix @ or_else (Some (message err)) txt_unknown_error)))))"

section \<open>The dispatcher\<close>

text \<open>\<open>msg.photo && msg.photo.length > 0\<close>.\<close>

definition truthy_list :: "'a list option \<Rightarrow> bool" where
  "truthy_list v = (case v of None \<Rightarrow> False | Some xs \<Rightarrow> length xs > 0)"

definition handleMessage :: "env \<Rightarrow> TgMessage \<Rightarrow> unit M" where
  "handleMessage E msg =
     (let txt = or_else (msg_text msg) [] in
      if startsWith txt (lit ''/start'') then handleStart E msg
      else if startsWith txt (lit ''/setkey'') then handleSetKey E msg
      else if startsWith txt (lit ''/stats'') then handleStats E msg
      else if startsWith txt (lit ''/history'') then handleHistory E msg
      else if startsWith txt (lit ''/delete'') then handleDelete E msg
      else if startsWith txt (lit ''/help'') then handleHelp E msg
      else case receiptMatch txt of
        Some receiptIdPrefix \<Rightarrow> handleReceiptDetail E msg receiptIdPrefix
      | None \<Rightarrow>
          if truthy_list (msg_photo msg) then handlePhoto E msg
          else if txt \<noteq> [] \<and> \<not> startsWith txt (lit ''/'') then handleTextReceipt E msg
          else if startsWith txt (lit ''/'') then sendMessage E (msg_chat_id msg) txt_unknown_command
          else return ())"

section \<open>The dispatch order as an ordered list of matchers\<close>

text \<open>
  The classification of the dispatcher, stated as a list of matchers tried in order, the
  first match winning: the six literal command prefixes, then the \<open>/receipt\<close> pattern,
  then a photo payload, then a non-empty text that does not start with a slash, then any
  text that starts with a slash. A message no matcher accepts gets no reply.
\<close>

datatype route =
  Start | SetKey | Stats | History | Delete | Help
  | ReceiptDetail jsstring | Photo | TextReceipt | UnknownCommand | NoReply

definition spec_command_prefixes :: "(jsstring \<times> route) list" where
  "spec_command_prefixes =
     [(lit ''/start'', Start), (lit ''/setkey'', SetKey), (lit ''/stats'', Stats),
      (lit ''/history'', History), (lit ''/delete'', Delete), (lit ''/help'', Help)]"

definition spec_text :: "TgMessage \<Rightarrow> jsstring" where
  "spec_text msg = (case msg_text msg of None \<Rightarrow> [] | Some t \<Rightarrow> t)"

definition spec_matchers :: "(TgMessage \<Rightarrow> route option) list" where
  "spec_matchers =
     map (\<lambda>(p, r). \<lambda>msg. if startsWith (spec_text msg) p then Some r else None)
       spec_command_prefixes @
     [\<lambda>msg. map_option ReceiptDetail (receiptMatch (spec_text msg)),
      \<lambda>msg. if truthy_list (msg_photo msg) then Some Photo else None,
      \<lambda>msg. if spec_text msg \<noteq> [] \<and> \<not> startsWith (spec_text msg) (lit ''/'')
            then Some TextReceipt else None,
      \<lambda>msg. if startsWith (spec_text msg) (lit ''/'') then Some UnknownCommand else None]"

fun spec_first_match :: "(TgMessage \<Rightarrow> route option) list \<Rightarrow> TgMessage \<Rightarrow> route" where
  "spec_first_match [] msg = NoReply"
| "spec_first_match (m # ms) msg =
     (case m msg of Some r \<Rightarrow> r | None \<Rightarrow> spec_first_match ms msg)"

definition spec_classify :: "TgMessage \<Rightarrow> route" where
  "spec_classify msg = spec_first_match spec_matchers msg"

definition run_route :: "env \<Rightarrow> TgMessage \<Rightarrow> route \<Rightarrow> unit M" where
  "run_route E msg r =
     (case r of
        Start \<Rightarrow> handleStart E msg
      | SetKey \<Rightarrow> handleSetKey E msg
      | Stats \<Rightarrow> handleStats E msg
      | History \<Rightarrow> handleHistory E msg
      | Delete \<Rightarrow> handleDelete E msg
      | Help \<Rightarrow> handleHelp E msg
      | ReceiptDetail p \<Rightarrow> handleReceiptDetail E msg p
      | Photo \<Rightarrow> handlePhoto E msg
      | TextReceipt \<Rightarrow> handleTextReceipt E msg
      | UnknownCommand \<Rightarrow> sendMessage E (msg_chat_id msg) txt_unknown_command
      | NoReply \<Rightarrow> return ())"

section \<open>Linked receipts and the schema's constraints\<close>

text \<open>
  The constraints of the schema that the statistics and the listings rest on: receipt
  ids are a primary key, an account links a receipt at most once, and every ownership
  link refers to a stored receipt.
\<close>

definition schema_ok :: "database \<Rightarrow> bool" where
  "schema_ok d =
     (distinct (map r_id (receipts d)) \<and>
      distinct (map (\<lambda>l. (ur_user_id l, ur_receipt_id l)) (user_receipts d)) \<and>
      list_all (\<lambda>l. ur_receipt_id l \<in> set (map r_id (receipts d))) (user_receipts d))"

text \<open>The receipts linked to an account: those some ownership link of the account names.\<close>

definition linked_receipts :: "database \<Rightarrow> jsstring \<Rightarrow> ReceiptRow list" where
  "linked_receipts d userId =
     filter (\<lambda>r. r_id r \<in> set (map ur_receipt_id
                                (filter (\<lambda>l. ur_user_id l = userId) (user_receipts d))))
       (receipts d)"






section \<open>Frame conditions\<close>

text \<open>A computation keeps a component of the state when no run of it changes that component.\<close>

definition keeps :: "(world \<Rightarrow> 'x) \<Rightarrow> 'a M \<Rightarrow> bool" where
  "keeps f m = (\<forall>w. f (snd (m w)) = f w)"

text \<open>The tables a stored receipt lives in.\<close>

definition receipt_tables ::
    "world \<Rightarrow> ReceiptRow list \<times> ReceiptItemRow list \<times> UserReceiptRow list" where
  "receipt_tables w = (receipts (db w), receipt_items (db w), user_receipts (db w))"






section \<open>Provisioning on first contact\<close>

text \<open>
  What the first contact of a chat writes. Called when the environment has answered \<open>t\<close>
  calls, \<open>createTelegramUser\<close> draws a password and an Account id, hashes the password,
  reads the clock twice and inserts one Account under the placeholder email of the chat
  and one session without a credential. The Account INSERT is refused when the id or the
  email is taken.
\<close>

definition provisioned_account :: "env \<Rightarrow> jsstring \<Rightarrow> jsstring \<Rightarrow> nat \<Rightarrow> UserRow" where
  "provisioned_account E c nm t =
     \<lparr>u_id = randomUUID_at E (Suc t),
      u_email = lit ''tg_'' @ c @ lit ''@telegram.local'',
      u_password = hashPassword_at E (t + 2) (randomUUID_at E t),
      u_name = nm,
      u_created_at = toISOString_at E (t + 3)\<rparr>"

definition provisioned_session :: "env \<Rightarrow> jsstring \<Rightarrow> nat \<Rightarrow> TelegramUser" where
  "provisioned_session E c t =
     \<lparr>chat_id = c, user_id = randomUUID_at E (Suc t), google_api_key = None,
      tu_created_at = toISOString_at E (t + 4)\<rparr>"

definition provision :: "env \<Rightarrow> jsstring \<Rightarrow> jsstring \<Rightarrow> nat \<Rightarrow> database \<Rightarrow> database" where
  "provision E c nm t d =
     d\<lparr>users := users d @ [provisioned_account E c nm t],
       telegram_users := telegram_users d @ [provisioned_session E c t]\<rparr>"

definition can_provision :: "env \<Rightarrow> jsstring \<Rightarrow> nat \<Rightarrow> database \<Rightarrow> bool" where
  "can_provision E c t d =
     (randomUUID_at E (Suc t) \<notin> set (map u_id (users d)) \<and>
      lit ''tg_'' @ c @ lit ''@telegram.local'' \<notin> set (map u_email (users d)))"
section \<open>Concrete inputs\<close>

subsection \<open>A platform and a database engine to run on\<close>

text \<open>
  How the platform prints a number, for the numbers of the examples: a natural number
  below \<open>10\<^sup>2\<^sup>1\<close> is printed in decimal digits, by \<open>toFixed(2)\<close> with two zeros behind
  the point.
\<close>

fun decimal :: "nat \<Rightarrow> jsstring" where
  "decimal n =
     (if n < 10 then [of_nat (48 + n)] else decimal (n div 10) @ [of_nat (48 + n mod 10)])"

declare decimal.simps [simp del]

definition is_small_natural :: "rat \<Rightarrow> bool" where
  "is_small_natural q = (0 \<le> q \<and> q < 10 ^ 21 \<and> q = of_int \<lfloor>q\<rfloor>)"

definition demo_Number_toString :: "number \<Rightarrow> jsstring" where
  "demo_Number_toString x =
     (case x of
        Finite q \<Rightarrow> if is_small_natural q then decimal (nat \<lfloor>q\<rfloor>) else lit ''#''
      | PosInfinity \<Rightarrow> lit ''Infinity''
      | NegInfinity \<Rightarrow> lit ''-Infinity'')"

definition demo_toFixed2 :: "number \<Rightarrow> jsstring" where
  "demo_toFixed2 x =
     (case x of
        Finite q \<Rightarrow> if is_small_natural q then decimal (nat \<lfloor>q\<rfloor>) @ lit ''.00''
                    else lit ''#.##''
      | PosInfinity \<Rightarrow> lit ''Infinity''
      | NegInfinity \<Rightarrow> lit ''-Infinity'')"

text \<open>
  A database engine that adds from left to right in IEEE 754 double precision, rounding
  to nearest, ties to even. \<open>binary_exponent a\<close> is the \<open>e\<close> with \<open>2\<^sup>e \<le> a < 2\<^sup>e\<^sup>+\<^sup>1\<close>; a double
  of that size is a multiple of \<open>2\<^sup>e\<^sup>-\<^sup>5\<^sup>2\<close>, and of \<open>2\<^sup>-\<^sup>1\<^sup>0\<^sup>7\<^sup>4\<close> below the normal range; a
  value that rounds to \<open>2\<^sup>1\<^sup>0\<^sup>2\<^sup>4\<close> or more is infinite. A result that is not a number is
  NULL.
\<close>

definition pow2 :: "int \<Rightarrow> rat" where
  "pow2 k = (if 0 \<le> k then 2 ^ nat k else 1 / 2 ^ nat (- k))"

definition binary_exponent :: "rat \<Rightarrow> int" where
  "binary_exponent a =
     (let k = bitlen (fst (quotient_of a)) - bitlen (snd (quotient_of a))
      in if pow2 k \<le> a then k else k - 1)"

definition round_half_even :: "rat \<Rightarrow> int" where
  "round_half_even x =
     (let f = \<lfloor>x\<rfloor>; d = x - of_int f
      in if d < 1 / 2 then f else if 1 / 2 < d then f + 1 else if even f then f else f + 1)"

definition round_binary64 :: "rat \<Rightarrow> number" where
  "round_binary64 x =
     (if x = 0 then Finite 0
      else let a = \<bar>x\<bar>;
               e = max (binary_exponent a) (- 1022);
               u = pow2 (e - 52);
               m = round_half_even (a / u)
           in if 1023 < e \<or> (e = 1023 \<and> 2 ^ 53 \<le> m)
              then (if 0 < x then PosInfinity else NegInfinity)
              else Finite (if 0 < x then of_int m * u else - (of_int m * u)))"

fun ieee_add :: "number \<Rightarrow> number \<Rightarrow> number option" where
  "ieee_add (Finite a) (Finite b) = Some (round_binary64 (a + b))"
| "ieee_add PosInfinity NegInfinity = None"
| "ieee_add NegInfinity PosInfinity = None"
| "ieee_add PosInfinity _ = Some PosInfinity"
| "ieee_add NegInfinity _ = Some NegInfinity"
| "ieee_add _ PosInfinity = Some PosInfinity"
| "ieee_add _ NegInfinity = Some NegInfinity"

fun ieee_div_count :: "number \<Rightarrow> nat \<Rightarrow> number" where
  "ieee_div_count (Finite a) n = round_binary64 (a / of_nat n)"
| "ieee_div_count PosInfinity n = PosInfinity"
| "ieee_div_count NegInfinity n = NegInfinity"

fun ieee_sum_from :: "number option \<Rightarrow> number list \<Rightarrow> number option" where
  "ieee_sum_from acc [] = acc"
| "ieee_sum_from acc (t # ts) =
     ieee_sum_from (case acc of None \<Rightarrow> None | Some s \<Rightarrow> ieee_add s t) ts"

definition ieee_sum :: "number list \<Rightarrow> number option" where
  "ieee_sum ts = ieee_sum_from (Some (Finite 0)) ts"

definition ieee_avg :: "number list \<Rightarrow> number option" where
  "ieee_avg ts = map_option (\<lambda>s. ieee_div_count s (length ts)) (ieee_sum ts)"

text \<open>
  An environment in which nothing fails: distinct identifiers, a transport that accepts
  every call, and an extraction service that answers with an empty object.
\<close>

definition demo_env :: env where
  "demo_env =
     \<lparr>randomUUID_at = (\<lambda>n. lit ''uuid-'' @ replicate (Suc n) 0x78),
      toISOString_at = (\<lambda>n. lit ''2026-01-01T00:00:00.000Z''),
      hashPassword_at = (\<lambda>n p. lit ''salt:'' @ p),
      apiRequest_at = (\<lambda>n. None),
      getFile_at = (\<lambda>n f. Inr (Some (lit ''photos/file_1.jpg''))),
      downloadFileBuffer_at = (\<lambda>n p. Inr [0xFF, 0xD8]),
      generateContent_at = (\<lambda>n k r. Inr (lit ''{}'')),
      GOOGLE_API_KEY = None,
      JSON_parse = (\<lambda>s. ParseThrows),
      JSON_stringify = (\<lambda>a. lit ''{}''),
      toString_base64 = (\<lambda>b. lit ''/9g=''),
      Number_toString = demo_Number_toString,
      toFixed2 = demo_toFixed2,
      SUM_REAL = ieee_sum,
      AVG_REAL = ieee_avg,
      String_of_chat = (\<lambda>n. if n = 42 then lit ''42'' else lit ''0'')\<rparr>"

definition empty_db :: database where
  "empty_db = \<lparr>users = [], receipts = [], receipt_items = [], user_receipts = [],
               telegram_users = []\<rparr>"

definition world_of :: "database \<Rightarrow> world" where
  "world_of d = \<lparr>db = d, tick = 0, sent = [], chat_actions = [], bridge_calls = []\<rparr>"

definition text_message :: "jsstring \<Rightarrow> TgMessage" where
  "text_message t =
     \<lparr>msg_from = Some \<lparr>first_name = lit ''Ada'', last_name = None\<rparr>, msg_chat_id = 42,
      msg_text = Some t, msg_photo = None, msg_caption = None\<rparr>"

text \<open>
  A database with one Account, its session for chat 42 (with the given credential) and
  the given receipts, each linked to the Account at the given time.
\<close>

definition demo_receipt :: "jsstring \<Rightarrow> rat option \<Rightarrow> ReceiptRow" where
  "demo_receipt rid amount =
     \<lparr>r_id = rid, store_name = Some (lit ''Cafe''), date = Some (lit ''2026-01-01''),
      time = None, subtotal = None, tax = None, total_amount = map_option Finite amount,
      currency = Some (lit ''EUR''), payment_method = None, raw_response = None,
      created_at = lit ''2026-01-01T00:00:00.000Z''\<rparr>"

definition demo_link :: "jsstring \<Rightarrow> jsstring \<Rightarrow> UserReceiptRow" where
  "demo_link rid addedAt =
     \<lparr>ur_id = lit ''link-'' @ rid, ur_user_id = lit ''uuid-xx'', ur_receipt_id = rid,
      ur_added_at = addedAt, ur_notes = None\<rparr>"

definition demo_db :: "jsstring option \<Rightarrow> (jsstring \<times> rat option \<times> jsstring) list \<Rightarrow> database" where
  "demo_db apiKey rs =
     \<lparr>users = [\<lparr>u_id = lit ''uuid-xx'', u_email = lit ''tg_42@telegram.local'',
                u_password = lit ''salt:uuid-x'', u_name = lit ''Ada'',
                u_created_at = lit ''2026-01-01T00:00:00.000Z''\<rparr>],
      receipts = map (\<lambda>(rid, amount, addedAt). demo_receipt rid amount) rs,
      receipt_items = [],
      user_receipts = map (\<lambda>(rid, amount, addedAt). demo_link rid addedAt) rs,
      telegram_users = [\<lparr>chat_id = lit ''42'', user_id = lit ''uuid-xx'',
                          google_api_key = apiKey,
                          tu_created_at = lit ''2026-01-01T00:00:00.000Z''\<rparr>]\<rparr>"

text \<open>Twelve receipts, linked one a day.\<close>

definition twelve_receipts :: "(jsstring \<times> rat option \<times> jsstring) list" where
  "twelve_receipts =
     [(lit ''r01'', Some 1, lit ''2026-01-01T10:00:00.000Z''),
      (lit ''r02'', Some 2, lit ''2026-01-02T10:00:00.000Z''),
      (lit ''r03'', Some 3, lit ''2026-01-03T10:00:00.000Z''),
      (lit ''r04'', Some 4, lit ''2026-01-04T10:00:00.000Z''),
      (lit ''r05'', Some 5, lit ''2026-01-05T10:00:00.000Z''),
      (lit ''r06'', Some 6, lit ''2026-01-06T10:00:00.000Z''),
      (lit ''r07'', Some 7, lit ''2026-01-07T10:00:00.000Z''),
      (lit ''r08'', Some 8, lit ''2026-01-08T10:00:00.000Z''),
      (lit ''r09'', Some 9, lit ''2026-01-09T10:00:00.000Z''),
      (lit ''r10'', Some 10, lit ''2026-01-10T10:00:00.000Z''),
      (lit ''r11'', Some 11, lit ''2026-01-11T10:00:00.000Z''),
      (lit ''r12'', Some 12, lit ''2026-01-12T10:00:00.000Z'')]"

text \<open>One receipt under a version-4 identifier, and two whose identifiers share a prefix.\<close>

definition one_receipt :: "(jsstring \<times> rat option \<times> jsstring) list" where
  "one_receipt =
     [(lit ''abcdef12-0000-4000-8000-000000000000'', Some 5, lit ''2026-01-01T10:00:00.000Z'')]"


text \<open>A photo message with two sizes and a caption.\<close>

definition photo_message :: TgMessage where
  "photo_message =
     \<lparr>msg_from = Some \<lparr>first_name = lit ''Ada'', last_name = None\<rparr>, msg_chat_id = 42,
      msg_text = None,
      msg_photo = Some [\<lparr>file_id = lit ''small'', width = 90, height = 67\<rparr>,
                        \<lparr>file_id = lit ''large'', width = 1280, height = 960\<rparr>],
      msg_caption = Some (lit ''lunch'')\<rparr>"

text \<open>
  Answers of the extraction service: a result whose \<open>error\<close> is the empty string, one
  whose \<open>error\<close> is \<open>false\<close>, one that reports an error, and the text \<open>null\<close>.
  \<open>answering_env\<close> is the environment whose service gives the given answer to every
  request and whose \<open>JSON.parse\<close> reads these four texts and throws on every other.
\<close>

definition raw_empty_error :: jsstring where
  "raw_empty_error =
     lit ''{'' @ [0x22] @ lit ''store_name'' @ [0x22] @ lit '':'' @ [0x22] @ lit ''Cafe'' @
     [0x22] @ lit '','' @ [0x22] @ lit ''items'' @ [0x22] @ lit '':[],'' @ [0x22] @
     lit ''total_amount'' @ [0x22] @ lit '':5,'' @ [0x22] @ lit ''error'' @ [0x22] @
     lit '':'' @ [0x22, 0x22] @ lit ''}''"

definition parsed_empty_error :: ReceiptAnalysisResult where
  "parsed_empty_error =
     \<lparr>ar_store_name = Some (lit ''Cafe''), ar_date = None, ar_time = None,
      ar_items = Some [], ar_subtotal = None, ar_tax = None,
      ar_total_amount = Some (Finite 5), ar_currency = None, ar_payment_method = None,
      ar_error = JString []\<rparr>"

definition raw_false_error :: jsstring where
  "raw_false_error =
     lit ''{'' @ [0x22] @ lit ''items'' @ [0x22] @ lit '':[],'' @ [0x22] @ lit ''error'' @
     [0x22] @ lit '':false}''"

definition parsed_false_error :: ReceiptAnalysisResult where
  "parsed_false_error =
     \<lparr>ar_store_name = None, ar_date = None, ar_time = None, ar_items = Some [],
      ar_subtotal = None, ar_tax = None, ar_total_amount = None, ar_currency = None,
      ar_payment_method = None, ar_error = JBoolean False\<rparr>"

definition raw_blurry :: jsstring where
  "raw_blurry =
     lit ''{'' @ [0x22] @ lit ''error'' @ [0x22] @ lit '':'' @ [0x22] @
     lit ''Image too blurry'' @ [0x22] @ lit ''}''"

definition parsed_blurry :: ReceiptAnalysisResult where
  "parsed_blurry =
     \<lparr>ar_store_name = None, ar_date = None, ar_time = None, ar_items = None,
      ar_subtotal = None, ar_tax = None, ar_total_amount = None, ar_currency = None,
      ar_payment_method = None, ar_error = JString (lit ''Image too blurry'')\<rparr>"

definition answering_env :: "jsstring \<Rightarrow> env" where
  "answering_env answer =
     demo_env
       \<lparr>generateContent_at := (\<lambda>n k r. Inr answer),
        JSON_parse := (\<lambda>s. if s = raw_empty_error then Parsed parsed_empty_error
                            else if s = raw_false_error then Parsed parsed_false_error
                            else if s = raw_blurry then Parsed parsed_blurry
                            else if s = lit ''null'' then ParsedNull
                            else ParseThrows)\<rparr>"

text \<open>
  A database in which the placeholder email of chat 42 belongs to an Account that was
  registered through the REST interface, and no chat has a session.
\<close>

definition taken_email_db :: database where
  "taken_email_db =
     \<lparr>users = [\<lparr>u_id = lit ''rest-1'', u_email = lit ''tg_42@telegram.local'',
                u_password = lit ''salt:secret'', u_name = lit ''Eve'',
                u_created_at = lit ''2025-12-31T00:00:00.000Z''\<rparr>],
      receipts = [], receipt_items = [], user_receipts = [], telegram_users = []\<rparr>"

section \<open>Basic facts\<close>

lemma find_append_case:
  "find P (xs @ ys) = (case find P xs of None \<Rightarrow> find P ys | Some x \<Rightarrow> Some x)"
  by (induction xs) auto

lemma startsWith_Nil_left: "startsWith [] p \<longleftrightarrow> p = []"
  by (auto simp: startsWith_def)

lemma startsWith_Nil_right: "startsWith s []"
  by (simp add: startsWith_def)

lemma receiptMatch_Nil: "receiptMatch [] = None"
  by (simp add: receiptMatch_def)

lemma or_else_text: "or_else (msg_text msg) [] = spec_text msg"
  by (simp add: or_else_def spec_text_def split: option.splits)

lemma startsWith_take:
  assumes "startsWith s p" and "n \<le> length p"
  shows "take n s = take n p"
proof -
  from assms(1) have "take n (take (length p) s) = take n p"
    by (simp add: startsWith_def)
  with assms(2) show ?thesis
    by (simp add: min_absorb2)
qed

text \<open>Two literals that differ within their first \<open>n\<close> code units cannot both start a text.\<close>

lemma startsWith_exclusive:
  assumes "startsWith s p" and "n \<le> length p" and "n \<le> length q" and "take n p \<noteq> take n q"
  shows "\<not> startsWith s q"
  using assms startsWith_take by metis

subsection \<open>What a reply changes\<close>

lemma sendMessage_frame:
  "db (snd (sendMessage E c t w)) = db w \<and>
   bridge_calls (snd (sendMessage E c t w)) = bridge_calls w"
  by (simp add: sendMessage_def split: option.splits)

lemma sendMessage_sent:
  "sendMessage E c t w = (r, w') \<Longrightarrow>
   (r = Inr () \<and> sent w' = sent w @ [(c, t)]) \<or> ((\<exists>e. r = Inl e) \<and> sent w' = sent w)"
  by (auto simp: sendMessage_def split: option.splits)

subsection \<open>What provisioning changes\<close>

lemma findTelegramUser_append_new:
  "findTelegramUser d c = None \<Longrightarrow> chat_id row = c \<Longrightarrow>
   findTelegramUser (d\<lparr>telegram_users := telegram_users d @ [row]\<rparr>) c = Some row"
  by (simp add: findTelegramUser_def find_append_case)

text \<open>
  A successful \<open>createTelegramUser\<close> appends one Account and one session, the session
  bound to the chat identity and to that Account, with no credential.
\<close>

lemma createTelegramUser_result:
  assumes "createTelegramUser E c nm w = (Inr u, w1)"
  shows "chat_id u = c \<and> google_api_key u = None \<and>
         (\<exists>urow. db w1 = (db w)\<lparr>users := users (db w) @ [urow],
                                  telegram_users := telegram_users (db w) @ [u]\<rparr>
                 \<and> user_id u = u_id urow)"
  using assms
  unfolding createTelegramUser_def createUser_def bind_def return_def randomUUID_def
    hashPassword_def toISOString_now_def run_stmt_def insert_user_def insert_telegram_user_def
    Let_def
  by (auto split: if_splits sum.splits prod.splits)

lemma createTelegramUser_frame:
  assumes "createTelegramUser E c nm w = (r, w1)"
  shows "sent w1 = sent w \<and> bridge_calls w1 = bridge_calls w \<and>
         chat_actions w1 = chat_actions w"
  using assms
  unfolding createTelegramUser_def createUser_def bind_def return_def randomUUID_def
    hashPassword_def toISOString_now_def run_stmt_def insert_user_def insert_telegram_user_def
    Let_def
  by (auto split: if_splits sum.splits prod.splits)

text \<open>When the chat identity has no session yet, a failed creation leaves no row behind.\<close>

lemma createTelegramUser_failure:
  assumes "createTelegramUser E c nm w = (Inl e, w1)"
    and "c \<notin> chat_id ` set (telegram_users (db w))"
  shows "db w1 = db w"
  using assms
  unfolding createTelegramUser_def createUser_def bind_def return_def randomUUID_def
    hashPassword_def toISOString_now_def run_stmt_def insert_user_def insert_telegram_user_def
    Let_def
  by (auto split: if_splits sum.splits prod.splits)

lemma getOrCreateTelegramUser_cases:
  assumes "getOrCreateTelegramUser E c nm w = (r, w1)"
  shows "sent w1 = sent w \<and> bridge_calls w1 = bridge_calls w \<and>
         (case findTelegramUser (db w) c of
            Some u \<Rightarrow> r = Inr u \<and> w1 = w
          | None \<Rightarrow>
              (\<exists>e. r = Inl e \<and> db w1 = db w) \<or>
              (\<exists>u urow. r = Inr u \<and> chat_id u = c \<and> google_api_key u = None \<and>
                 user_id u = u_id urow \<and>
                 db w1 = (db w)\<lparr>users := users (db w) @ [urow],
                                telegram_users := telegram_users (db w) @ [u]\<rparr>))"
proof (cases "findTelegramUser (db w) c")
  case (Some u)
  with assms show ?thesis by (auto simp: getOrCreateTelegramUser_def)
next
  case None
  then have notin: "c \<notin> chat_id ` set (telegram_users (db w))"
    by (auto simp: findTelegramUser_def find_None_iff)
  from assms None have cr: "createTelegramUser E c nm w = (r, w1)"
    by (simp add: getOrCreateTelegramUser_def)
  show ?thesis
  proof (cases r)
    case (Inl e)
    with cr createTelegramUser_failure [OF _ notin] createTelegramUser_frame [OF cr] None
    show ?thesis by auto
  next
    case (Inr u)
    with cr createTelegramUser_result [of E c nm w u w1] createTelegramUser_frame [OF cr] None
    show ?thesis by auto
  qed
qed

text \<open>
  A creation for a chat without a session, run exactly: it provisions when the new id and
  the placeholder email are free, and the Account INSERT throws otherwise.
\<close>

lemma createTelegramUser_provisions:
  assumes "can_provision E c (tick w) (db w)" and "findTelegramUser (db w) c = None"
  shows "createTelegramUser E c nm w =
           (Inr (provisioned_session E c (tick w)),
            w\<lparr>tick := tick w + 5, db := provision E c nm (tick w) (db w)\<rparr>)"
proof -
  from assms(2) have "c \<notin> chat_id ` set (telegram_users (db w))"
    by (auto simp: findTelegramUser_def find_None_iff)
  with assms(1) show ?thesis
    unfolding createTelegramUser_def createUser_def bind_def return_def randomUUID_def
      hashPassword_def toISOString_now_def run_stmt_def insert_user_def
      insert_telegram_user_def Let_def can_provision_def provision_def
      provisioned_account_def provisioned_session_def
    by (simp add: image_iff eval_nat_numeral)
qed

lemma createTelegramUser_refused:
  assumes "\<not> can_provision E c (tick w) (db w)"
  shows "\<exists>e. createTelegramUser E c nm w = (Inl (SqliteError e), w\<lparr>tick := tick w + 4\<rparr>)"
  using assms
  unfolding createTelegramUser_def createUser_def bind_def return_def randomUUID_def
    hashPassword_def toISOString_now_def run_stmt_def insert_user_def
    insert_telegram_user_def Let_def can_provision_def
  by (auto simp: image_iff eval_nat_numeral)

lemma getOrCreateTelegramUser_run:
  "getOrCreateTelegramUser E c nm w =
     (case findTelegramUser (db w) c of
        Some u \<Rightarrow> (Inr u, w)
      | None \<Rightarrow> createTelegramUser E c nm w)"
  by (simp add: getOrCreateTelegramUser_def bind_def query_def return_def split: option.splits)

lemma provision_session_found:
  assumes "findTelegramUser d c = None"
  shows "findTelegramUser (provision E c nm t d) c = Some (provisioned_session E c t)"
proof -
  from assms have "findTelegramUser (d\<lparr>users := users d @ [provisioned_account E c nm t]\<rparr>) c = None"
    by (simp add: findTelegramUser_def)
  from findTelegramUser_append_new [OF this, of "provisioned_session E c t"]
  show ?thesis by (simp add: provision_def provisioned_session_def)
qed

subsection \<open>The join under the schema's constraints\<close>

lemma filter_id_singleton:
  assumes "distinct (map f xs)" and "x \<in> set xs"
  shows "filter (\<lambda>y. f y = f x) xs = [x]"
  using assms
proof (induction xs)
  case Nil
  then show ?case by simp
next
  case (Cons a xs)
  show ?case
  proof (cases "a = x")
    case True
    with Cons.prems have "\<forall>y\<in>set xs. f y \<noteq> f x" by (auto simp: image_iff)
    then have "filter (\<lambda>y. f y = f x) xs = []" by (simp add: filter_empty_conv)
    with True show ?thesis by simp
  next
    case False
    with Cons.prems have "x \<in> set xs" "f a \<noteq> f x" "distinct (map f xs)" by auto
    with Cons.IH show ?thesis by simp
  qed
qed

lemma distinct_pairs_filter:
  "distinct (map (\<lambda>l. (f l, g l)) xs) \<Longrightarrow> distinct (map g (filter (\<lambda>l. f l = u) xs))"
  by (induction xs) (auto simp: image_iff)

lemma joined_receipt_ids:
  assumes "schema_ok d"
  shows "map (\<lambda>p. r_id (fst p)) (joined_rows d uid)
           = map ur_receipt_id (filter (\<lambda>l. ur_user_id l = uid) (user_receipts d))"
proof -
  have one: "map r_id (filter (\<lambda>r. r_id r = ur_receipt_id l) (receipts d))
               = [ur_receipt_id l]" if "l \<in> set (user_receipts d)" for l
  proof -
    from assms that obtain r where r: "r \<in> set (receipts d)" "r_id r = ur_receipt_id l"
      by (auto simp: schema_ok_def list_all_iff)
    from assms have "distinct (map r_id (receipts d))" by (simp add: schema_ok_def)
    from filter_id_singleton [OF this r(1)] r(2) show ?thesis by simp
  qed
  have "map (\<lambda>p. r_id (fst p)) (concat (map (\<lambda>l. map (\<lambda>r. (r, l)) (filter (\<lambda>r. r_id r = ur_receipt_id l) (receipts d))) ls))
          = map ur_receipt_id ls" if "set ls \<subseteq> set (user_receipts d)" for ls
    using that by (induction ls) (simp_all add: one comp_def)
  then show ?thesis
    by (simp add: joined_rows_def)
qed

lemma distinct_map_imp: "distinct (map f ys) \<Longrightarrow> distinct ys"
  by (simp add: distinct_map)

lemma joined_mset:
  assumes "schema_ok d"
  shows "mset (map fst (joined_rows d uid)) = mset (linked_receipts d uid)"
proof -
  let ?J = "map fst (joined_rows d uid)"
  let ?L = "filter (\<lambda>l. ur_user_id l = uid) (user_receipts d)"
  have ids: "map r_id ?J = map ur_receipt_id ?L"
    using joined_receipt_ids [OF assms, of uid] by (simp add: comp_def)
  from assms have "distinct (map ur_receipt_id ?L)"
    by (simp add: schema_ok_def distinct_pairs_filter)
  with ids have "distinct (map r_id ?J)" by simp
  then have dJ: "distinct ?J" by (rule distinct_map_imp)
  from assms have "distinct (receipts d)"
    by (simp add: schema_ok_def distinct_map)
  then have dL: "distinct (linked_receipts d uid)" by (simp add: linked_receipts_def)
  have "set ?J = {r \<in> set (receipts d). \<exists>l\<in>set (user_receipts d).
                     ur_user_id l = uid \<and> r_id r = ur_receipt_id l}"
    by (force simp: joined_rows_def)
  moreover
  have "set (linked_receipts d uid) = {r \<in> set (receipts d). \<exists>l\<in>set (user_receipts d).
                     ur_user_id l = uid \<and> r_id r = ur_receipt_id l}"
    by (force simp: linked_receipts_def)
  ultimately have "set ?J = set (linked_receipts d uid)" by simp
  with dJ dL show ?thesis
    using set_eq_iff_mset_eq_distinct by blast
qed

subsection \<open>The order of a listing\<close>

lemma insert_desc_mset: "mset (insert_desc k x xs) = add_mset x (mset xs)"
  by (induction xs) auto

lemma order_by_desc_mset: "mset (order_by_desc k xs) = mset xs"
  by (induction xs) (auto simp: order_by_desc_def insert_desc_mset)

lemma insert_desc_set: "set (insert_desc k x xs) = insert x (set xs)"
  by (induction xs) auto

lemma insert_desc_sorted:
  "sorted_wrt (\<lambda>a b. k b \<le> k a) xs \<Longrightarrow> sorted_wrt (\<lambda>a b. k b \<le> k a) (insert_desc k x xs)"
  by (induction xs) (auto simp: insert_desc_set)

lemma order_by_desc_sorted: "sorted_wrt (\<lambda>a b. k b \<le> k a) (order_by_desc k xs)"
  by (induction xs) (auto simp: order_by_desc_def insert_desc_sorted)

lemma getUserReceipts_sorted:
  "sorted_wrt (\<lambda>a b. added_at b \<le> added_at a) (getUserReceipts d uid)"
proof -
  have "sorted_wrt (\<lambda>p q. ur_added_at (snd q) \<le> ur_added_at (snd p))
          (order_by_desc (\<lambda>p. ur_added_at (snd p)) (joined_rows d uid))"
    by (rule order_by_desc_sorted)
  then show ?thesis
    by (simp add: getUserReceipts_def sorted_wrt_map toDetails_def split_def)
qed

lemma getUserReceipts_mset:
  "mset (getUserReceipts d uid) = mset (map (toDetails d) (joined_rows d uid))"
  by (simp add: getUserReceipts_def order_by_desc_mset)

lemma sorted_wrt_take_drop:
  assumes "sorted_wrt R xs" and "a \<in> set (take n xs)" and "b \<in> set (drop n xs)"
  shows "R a b"
proof -
  from assms(1) have "sorted_wrt R (take n xs @ drop n xs)" by simp
  with assms(2,3) show ?thesis
    unfolding sorted_wrt_append by blast
qed


subsection \<open>The dispatcher on the command prefixes\<close>

lemma handleMessage_history:
  assumes "startsWith (or_else (msg_text msg) []) (lit ''/history'')"
  shows "handleMessage E msg = handleHistory E msg"
proof -
  let ?t = "or_else (msg_text msg) []"
  from assms have "\<not> startsWith ?t (lit ''/start'')" "\<not> startsWith ?t (lit ''/setkey'')"
    "\<not> startsWith ?t (lit ''/stats'')"
    by (rule startsWith_exclusive [where n = 2]; simp add: lit_def)+
  with assms show ?thesis
    by (simp add: handleMessage_def Let_def)
qed


subsection \<open>Looking a receipt up and deleting it\<close>

lemma handleReceiptDetail_registered:
  assumes "findTelegramUser (db w) (String_of_chat E (msg_chat_id msg)) = Some u"
  shows "handleReceiptDetail E msg p w =
           sendMessage E (msg_chat_id msg)
             (case find (\<lambda>r. startsWith (r_id r) p) (getUserReceipts (db w) (user_id u)) of
                None \<Rightarrow> txt_receipt_not_found
              | Some r \<Rightarrow> formatReceipt E r) w"
  using assms by (simp add: handleReceiptDetail_def bind_def query_def Let_def split: option.splits)

lemma receiptMatch_head:
  assumes "receiptMatch t = Some p"
  shows "take 2 t = lit ''/r'' \<or> take 2 t = lit ''/R''"
proof -
  from assms have m: "map upper_ascii (take 8 t) = map upper_ascii (lit ''/receipt'')" and l: "8 \<le> length t"
    by (auto simp: receiptMatch_def split: if_splits)
  from l obtain a b rest where t: "t = a # b # rest"
    by (cases t; cases "tl t") auto
  from m t have "upper_ascii a = 0x2F" "upper_ascii b = 0x52"
    by (simp_all add: lit_def upper_ascii_def)
  then have "a = 0x2F" "b = 0x72 \<or> b = 0x52"
    unfolding upper_ascii_def
    by (auto split: if_splits)
  with t show ?thesis by (auto simp: lit_def)
qed


lemma handleMessage_receipt:
  assumes "receiptMatch (or_else (msg_text msg) []) = Some p"
  shows "handleMessage E msg = handleReceiptDetail E msg p"
proof -
  let ?t = "or_else (msg_text msg) []"
  note h = receiptMatch_head [OF assms]
  have no: "\<not> startsWith ?t q" if "2 \<le> length q" "take 2 q \<noteq> lit ''/r''" "take 2 q \<noteq> lit ''/R''" for q
  proof
    assume "startsWith ?t q"
    from startsWith_take [OF this that(1)] h that(2,3) show False by auto
  qed
  have "\<not> startsWith ?t (lit ''/start'')" "\<not> startsWith ?t (lit ''/setkey'')"
    "\<not> startsWith ?t (lit ''/stats'')" "\<not> startsWith ?t (lit ''/history'')"
    "\<not> startsWith ?t (lit ''/delete'')" "\<not> startsWith ?t (lit ''/help'')"
    by (rule no; simp add: lit_def)+
  with assms show ?thesis
    by (simp add: handleMessage_def Let_def)
qed











subsection \<open>Running the handlers on concrete inputs\<close>

lemmas run_defs =
  handleMessage_def handleSetKey_def handleStart_def getUserName_def
  getOrCreateTelegramUser_def findTelegramUser_def createTelegramUser_def
  createUser_def bind_def return_def randomUUID_def hashPassword_def toISOString_now_def
  run_stmt_def run_update_def query_def insert_user_def insert_telegram_user_def sendMessage_def
  or_else_def startsWith_def split_ws_def isWhitespace_def
  demo_env_def world_of_def empty_db_def text_message_def lit_def Let_def

lemmas listing_run_defs =
  getUserReceipts_def joined_rows_def order_by_desc_def toDetails_def getReceiptItems_def
  demo_db_def demo_receipt_def demo_link_def lit_def

lemma one_receipt_listing:
  "map r_id (getUserReceipts (demo_db None one_receipt) (lit ''uuid-xx''))
     = [lit ''abcdef12-0000-4000-8000-000000000000'']"
  by (simp add: listing_run_defs one_receipt_def)

lemma demo_session:
  "findTelegramUser (db (world_of (demo_db k rs)))
     (String_of_chat demo_env (msg_chat_id (text_message t)))
   = Some \<lparr>chat_id = lit ''42'', user_id = lit ''uuid-xx'', google_api_key = k,
           tu_created_at = lit ''2026-01-01T00:00:00.000Z''\<rparr>"
  by (simp add: findTelegramUser_def world_of_def demo_db_def demo_env_def text_message_def)

subsection \<open>The session a photo or text handler works with\<close>

lemma ensureTelegramUser_registered:
  assumes "findTelegramUser (db w) (String_of_chat E (msg_chat_id msg)) = Some u"
  shows "ensureTelegramUser E msg w = (Inr u, w)"
  using assms by (simp add: ensureTelegramUser_def bind_def query_def return_def Let_def)

lemma ensureTelegramUser_new:
  assumes none: "findTelegramUser (db w) (String_of_chat E (msg_chat_id msg)) = None"
    and run: "ensureTelegramUser E msg w = (r, w1)"
  shows "sent w1 = sent w \<and> bridge_calls w1 = bridge_calls w \<and>
         receipts (db w1) = receipts (db w) \<and> receipt_items (db w1) = receipt_items (db w) \<and>
         user_receipts (db w1) = user_receipts (db w) \<and>
         ((\<exists>e. r = Inl e) \<or> (\<exists>u. r = Inr u \<and> google_api_key u = None))"
proof -
  let ?c = "String_of_chat E (msg_chat_id msg)"
  obtain r0 w0 where g: "getOrCreateTelegramUser E ?c (getUserName msg) w = (r0, w0)"
    by (cases "getOrCreateTelegramUser E ?c (getUserName msg) w")
  note gc = getOrCreateTelegramUser_cases [OF g]
  show ?thesis
  proof (cases r0)
    case (Inl e)
    with run g none have "r = Inl e" "w1 = w0"
      by (auto simp: ensureTelegramUser_def bind_def query_def return_def Let_def)
    with gc none Inl show ?thesis by auto
  next
    case (Inr u0)
    with gc none obtain urow where u0: "chat_id u0 = ?c" "google_api_key u0 = None"
      and d: "db w0 = (db w)\<lparr>users := users (db w) @ [urow],
                           telegram_users := telegram_users (db w) @ [u0]\<rparr>"
      by auto
    from none have "findTelegramUser ((db w)\<lparr>users := users (db w) @ [urow]\<rparr>) ?c = None"
      by (simp add: findTelegramUser_def)
    from findTelegramUser_append_new [OF this u0(1)] have f: "findTelegramUser (db w0) ?c = Some u0"
      by (simp add: d)
    with run g none Inr have "r = Inr u0" "w1 = w0"
      by (auto simp: ensureTelegramUser_def bind_def query_def return_def Let_def)
    with gc u0 d show ?thesis by auto
  qed
qed

lemma ensureTelegramUser_provisions:
  assumes "findTelegramUser (db w) (String_of_chat E (msg_chat_id msg)) = None"
    and "can_provision E (String_of_chat E (msg_chat_id msg)) (tick w) (db w)"
  shows "ensureTelegramUser E msg w =
           (Inr (provisioned_session E (String_of_chat E (msg_chat_id msg)) (tick w)),
            w\<lparr>tick := tick w + 5,
              db := provision E (String_of_chat E (msg_chat_id msg)) (getUserName msg) (tick w)
                      (db w)\<rparr>)"
  using assms provision_session_found [OF assms(1)]
  by (simp add: ensureTelegramUser_def bind_def query_def return_def Let_def
        getOrCreateTelegramUser_run createTelegramUser_provisions)

lemma ensureTelegramUser_refused:
  assumes "findTelegramUser (db w) (String_of_chat E (msg_chat_id msg)) = None"
    and "\<not> can_provision E (String_of_chat E (msg_chat_id msg)) (tick w) (db w)"
  shows "\<exists>e. ensureTelegramUser E msg w = (Inl (SqliteError e), w\<lparr>tick := tick w + 4\<rparr>)"
proof -
  from createTelegramUser_refused [OF assms(2), of "getUserName msg"]
  obtain e where "createTelegramUser E (String_of_chat E (msg_chat_id msg)) (getUserName msg) w
                    = (Inl (SqliteError e), w\<lparr>tick := tick w + 4\<rparr>)" ..
  with assms(1) show ?thesis
    by (simp add: ensureTelegramUser_def bind_def query_def return_def Let_def
          getOrCreateTelegramUser_run)
qed

subsection \<open>Frame rules\<close>

lemma keepsD: "keeps f m \<Longrightarrow> f (snd (m w)) = f w"
  by (simp add: keeps_def)

lemma keeps_result: "keeps f m \<Longrightarrow> m w = (r, w') \<Longrightarrow> f w' = f w"
  by (metis keepsD snd_conv)

lemma keeps_return: "keeps f (return x)"
  by (simp add: keeps_def return_def)

lemma keeps_throw: "keeps f (throw e)"
  by (simp add: keeps_def throw_def)

lemma keeps_query: "keeps f (query q)"
  by (simp add: keeps_def query_def)

lemma keeps_bind:
  assumes "keeps f m" and "\<And>x. keeps f (k x)"
  shows "keeps f (bind m k)"
  unfolding keeps_def
proof
  fix w
  obtain r w1 where m: "m w = (r, w1)" by (cases "m w")
  with assms(1) have w1: "f w1 = f w" by (rule keeps_result)
  show "f (snd (bind m k w)) = f w"
  proof (cases r)
    case (Inl e)
    with m w1 show ?thesis by (simp add: bind_def)
  next
    case (Inr x)
    with m w1 keepsD [OF assms(2), of x w1] show ?thesis by (simp add: bind_def)
  qed
qed

lemma keeps_try_catch:
  assumes "keeps f m" and "\<And>e. keeps f (h e)"
  shows "keeps f (try_catch m h)"
  unfolding keeps_def
proof
  fix w
  obtain r w1 where m: "m w = (r, w1)" by (cases "m w")
  with assms(1) have w1: "f w1 = f w" by (rule keeps_result)
  show "f (snd (try_catch m h w)) = f w"
  proof (cases r)
    case (Inl e)
    with m w1 keepsD [OF assms(2), of e w1] show ?thesis by (simp add: try_catch_def)
  next
    case (Inr x)
    with m w1 show ?thesis by (simp add: try_catch_def)
  qed
qed

lemma keeps_transaction:
  assumes "keeps f body" and "\<And>w d. f (w\<lparr>db := d\<rparr>) = f w"
  shows "keeps f (transaction body)"
  unfolding keeps_def
proof
  fix w
  obtain r w1 where m: "body w = (r, w1)" by (cases "body w")
  with assms(1) have w1: "f w1 = f w" by (rule keeps_result)
  with m assms(2) show "f (snd (transaction body w)) = f w"
    by (cases r) (simp_all add: transaction_def)
qed

lemma keeps_run_stmt:
  assumes "\<And>w d. f (w\<lparr>db := d\<rparr>) = f w"
  shows "keeps f (run_stmt s)"
  using assms by (simp add: keeps_def run_stmt_def split: sum.splits)

lemma keeps_run_update:
  assumes "\<And>w d. f (w\<lparr>db := d\<rparr>) = f w"
  shows "keeps f (run_update s)"
  using assms by (simp add: keeps_def run_update_def)

lemma keeps_oracles:
  assumes "\<And>w n. f (w\<lparr>tick := n\<rparr>) = f w"
  shows "keeps f (randomUUID E)" and "keeps f (toISOString_now E)"
    and "keeps f (hashPassword E p)" and "keeps f (getFile E i)"
    and "keeps f (downloadFileBuffer E q)"
  using assms
  by (simp_all add: keeps_def randomUUID_def toISOString_now_def hashPassword_def getFile_def
        downloadFileBuffer_def)

lemma keeps_bridge_calls_send:
  "keeps bridge_calls (sendMessage E c t)" "keeps bridge_calls (sendChatAction E c a)"
  by (simp_all add: keeps_def sendMessage_def sendChatAction_def split: option.splits)


lemmas keeps_intros =
  keeps_bind keeps_try_catch keeps_transaction keeps_return keeps_throw keeps_query
  keeps_run_stmt keeps_run_update keeps_oracles

lemma keeps_insertItems:
  assumes "\<And>w d. f (w\<lparr>db := d\<rparr>) = f w" and "\<And>w n. f (w\<lparr>tick := n\<rparr>) = f w"
  shows "keeps f (insertItems E rid its)"
  by (induction its) (auto intro!: keeps_intros assms)

lemma keeps_createReceiptForUser:
  assumes "\<And>w d. f (w\<lparr>db := d\<rparr>) = f w" and "\<And>w n. f (w\<lparr>tick := n\<rparr>) = f w"
  shows "keeps f (createReceiptForUser E uid a n raw)"
  unfolding createReceiptForUser_def createReceipt_def linkReceiptToUser_def Let_def
  by (auto split: option.splits intro!: keeps_intros keeps_insertItems assms)

lemma keeps_bridge_calls_persistAnalysis:
  "keeps bridge_calls (persistAnalysis E c u p raw n)"
  unfolding persistAnalysis_def
  by (auto split: parse_result.splits intro!: keeps_intros keeps_bridge_calls_send
        keeps_createReceiptForUser)

subsection \<open>The gate in front of the extraction service\<close>

lemma keeps_comp: "keeps f m \<Longrightarrow> keeps (\<lambda>w. g (f w)) m"
  by (simp add: keeps_def)

lemma keeps_other_keys_generateContent:
  "keeps (\<lambda>w. filter (\<lambda>c. fst c \<noteq> k) (bridge_calls w)) (generateContent E k req)"
  by (simp add: keeps_def generateContent_def)

lemma createGeminiModel_key: "k \<noteq> [] \<Longrightarrow> createGeminiModel E (Some k) = k"
  by (simp add: createGeminiModel_def or_else_def)

lemma keeps_other_keys_photo:
  assumes "apiKey = Some k" and "k \<noteq> []"
  shows "keeps (\<lambda>w. filter (\<lambda>c. fst c \<noteq> k) (bridge_calls w))
     (bind (sendChatAction E chat (lit ''typing'')) (\<lambda>_.
      try_catch
        (case msg_photo msg of
           None \<Rightarrow> throw (TypeError (lit ''Cannot read properties of undefined (reading '' @ [0x27] @ lit ''length'' @ [0x27] @ lit '')''))
         | Some photos \<Rightarrow>
             if photos = []
             then throw (TypeError (lit ''Cannot read properties of undefined (reading '' @ [0x27] @ lit ''file_id'' @ [0x27] @ lit '')''))
             else
               bind (getFile E (file_id (last photos))) (\<lambda>file_path.
                 if \<not> truthy file_path then sendMessage E chat txt_no_photo_file
                 else
                   bind (downloadFileBuffer E (or_else file_path [])) (\<lambda>buffer.
                     bind (sendMessage E chat txt_analyzing) (\<lambda>_.
                     bind (analyzeReceiptImage E
                             (lit ''data:'' @
                              (if endsWith (or_else file_path []) (lit ''.png'')
                               then lit ''image/png'' else lit ''image/jpeg'') @
                              lit '';base64,'' @ toString_base64 E buffer) apiKey) (\<lambda>rawResult.
                       persistAnalysis E chat user txt_photo_error_prefix rawResult
                         (or_null (msg_caption msg)))))))
        (\<lambda>err. sendMessage E chat
                 (txt_photo_failed_prefix @ or_else (Some (message err)) txt_unknown_error))))"
  unfolding analyzeReceiptImage_def assms(1) createGeminiModel_key [OF assms(2)]
  by (auto split: option.splits
        intro!: keeps_intros keeps_other_keys_generateContent
          keeps_comp [OF keeps_bridge_calls_send(1)] keeps_comp [OF keeps_bridge_calls_send(2)]
          keeps_comp [OF keeps_bridge_calls_persistAnalysis])

lemma keeps_other_keys_text:
  assumes "apiKey = Some k" and "k \<noteq> []"
  shows "keeps (\<lambda>w. filter (\<lambda>c. fst c \<noteq> k) (bridge_calls w))
     (bind (sendChatAction E chat (lit ''typing'')) (\<lambda>_.
      try_catch
        (bind (generateContent E (createGeminiModel E apiKey) (AnalyzeText (textPrompt msg)))
           (\<lambda>rawResult. persistAnalysis E chat user txt_text_error_prefix rawResult None))
        (\<lambda>err. sendMessage E chat
                 (txt_text_failed_prefix @ or_else (Some (message err)) txt_unknown_error))))"
  unfolding assms(1) createGeminiModel_key [OF assms(2)]
  by (auto intro!: keeps_intros keeps_other_keys_generateContent
          keeps_comp [OF keeps_bridge_calls_send(1)] keeps_comp [OF keeps_bridge_calls_send(2)]
          keeps_comp [OF keeps_bridge_calls_persistAnalysis])

lemma handler_gate:
  fixes rest :: "TelegramUser \<Rightarrow> unit M"
  assumes h: "h = bind (ensureTelegramUser E msg) (\<lambda>user.
                  if \<not> truthy (google_api_key user)
                  then sendMessage E (msg_chat_id msg) txt_set_key_first else rest user)"
    and rest: "\<And>user k. google_api_key user = Some k \<Longrightarrow> k \<noteq> [] \<Longrightarrow>
                 keeps (\<lambda>w. filter (\<lambda>c. fst c \<noteq> k) (bridge_calls w)) (rest user)"
  shows "(\<forall>u. findTelegramUser (db w) (String_of_chat E (msg_chat_id msg)) = Some u \<and>
              \<not> truthy (google_api_key u)
            \<longrightarrow> h w = sendMessage E (msg_chat_id msg) txt_set_key_first w \<and>
            db (snd (h w)) = db w \<and> bridge_calls (snd (h w)) = bridge_calls w) \<and>
         (findTelegramUser (db w) (String_of_chat E (msg_chat_id msg)) = None \<and>
          can_provision E (String_of_chat E (msg_chat_id msg)) (tick w) (db w)
            \<longrightarrow> h w = sendMessage E (msg_chat_id msg) txt_set_key_first
                        (w\<lparr>tick := tick w + 5,
                           db := provision E (String_of_chat E (msg_chat_id msg))
                                   (getUserName msg) (tick w) (db w)\<rparr>)) \<and>
         (findTelegramUser (db w) (String_of_chat E (msg_chat_id msg)) = None \<and>
          \<not> can_provision E (String_of_chat E (msg_chat_id msg)) (tick w) (db w)
            \<longrightarrow> (\<exists>e. h w = (Inl (SqliteError e), w\<lparr>tick := tick w + 4\<rparr>))) \<and>
         (findTelegramUser (db w) (String_of_chat E (msg_chat_id msg)) = None
            \<longrightarrow> bridge_calls (snd (h w)) = bridge_calls w \<and>
                receipt_tables (snd (h w)) = receipt_tables w \<and>
                (sent (snd (h w)) = sent w \<or>
                 sent (snd (h w)) = sent w @ [(msg_chat_id msg, txt_set_key_first)])) \<and>
         (bridge_calls (snd (h w)) \<noteq> bridge_calls w
            \<longrightarrow> (\<exists>u k. findTelegramUser (db w) (String_of_chat E (msg_chat_id msg)) = Some u \<and>
                       google_api_key u = Some k \<and> k \<noteq> [])) \<and>
         (\<forall>u k. findTelegramUser (db w) (String_of_chat E (msg_chat_id msg)) = Some u \<and>
                google_api_key u = Some k
            \<longrightarrow> filter (\<lambda>c. fst c \<noteq> k) (bridge_calls (snd (h w)))
                  = filter (\<lambda>c. fst c \<noteq> k) (bridge_calls w))"
proof -
  let ?c = "String_of_chat E (msg_chat_id msg)"
  let ?prompt = "sendMessage E (msg_chat_id msg) txt_set_key_first"
  have nokey: "h w = ?prompt w"
    if "findTelegramUser (db w) ?c = Some u" "\<not> truthy (google_api_key u)" for u
    using that by (simp add: h bind_def ensureTelegramUser_registered)
  have withkey: "filter (\<lambda>c. fst c \<noteq> k) (bridge_calls (snd (h w)))
                   = filter (\<lambda>c. fst c \<noteq> k) (bridge_calls w)"
    if reg: "findTelegramUser (db w) ?c = Some u" and key: "google_api_key u = Some k" for u k
  proof (cases "k = []")
    case True
    with key have "\<not> truthy (google_api_key u)" by (simp add: truthy_def)
    from nokey [OF reg this] show ?thesis
      by (simp add: sendMessage_frame)
  next
    case False
    with key have "truthy (google_api_key u)" by (simp add: truthy_def)
    with reg have "h w = rest u w"
      by (simp add: h bind_def ensureTelegramUser_registered)
    with keepsD [OF rest [OF key False], of w] show ?thesis by simp
  qed
  have fresh: "bridge_calls (snd (h w)) = bridge_calls w \<and>
               receipt_tables (snd (h w)) = receipt_tables w \<and>
               (sent (snd (h w)) = sent w \<or>
                sent (snd (h w)) = sent w @ [(msg_chat_id msg, txt_set_key_first)])"
    if none: "findTelegramUser (db w) ?c = None"
  proof -
    obtain r w1 where e: "ensureTelegramUser E msg w = (r, w1)"
      by (cases "ensureTelegramUser E msg w")
    note en = ensureTelegramUser_new [OF none e]
    then have rt: "receipt_tables w1 = receipt_tables w"
      by (simp add: receipt_tables_def)
    from en consider e0 where "r = Inl e0" | u where "r = Inr u" "google_api_key u = None"
      by blast
    then show ?thesis
    proof cases
      case 1
      with e have "h w = (Inl e0, w1)" by (simp add: h bind_def)
      with en rt show ?thesis by simp
    next
      case 2
      with e have hw: "h w = ?prompt w1" by (simp add: h bind_def truthy_def)
      obtain r2 w2 where s: "?prompt w1 = (r2, w2)" by (cases "?prompt w1")
      from sendMessage_frame [of E "msg_chat_id msg" txt_set_key_first w1] s
      have "db w2 = db w1" "bridge_calls w2 = bridge_calls w1" by simp_all
      with sendMessage_sent [OF s] en rt hw s show ?thesis
        by (auto simp: receipt_tables_def)
    qed
  qed
  have only: "\<exists>u k. findTelegramUser (db w) ?c = Some u \<and> google_api_key u = Some k \<and> k \<noteq> []"
    if changed: "bridge_calls (snd (h w)) \<noteq> bridge_calls w"
  proof (cases "findTelegramUser (db w) ?c")
    case None
    with fresh changed show ?thesis by simp
  next
    case (Some u)
    show ?thesis
    proof (cases "truthy (google_api_key u)")
      case True
      with Some show ?thesis by (auto simp: truthy_def split: option.splits)
    next
      case False
      from nokey [OF Some False] changed show ?thesis
        by (simp add: sendMessage_frame)
    qed
  qed
  have quiet: "db (snd (h w)) = db w \<and> bridge_calls (snd (h w)) = bridge_calls w"
    if "findTelegramUser (db w) ?c = Some u" "\<not> truthy (google_api_key u)" for u
    using nokey [OF that] by (simp add: sendMessage_frame)
  have provisions: "h w = ?prompt (w\<lparr>tick := tick w + 5,
                       db := provision E ?c (getUserName msg) (tick w) (db w)\<rparr>)"
    if "findTelegramUser (db w) ?c = None" "can_provision E ?c (tick w) (db w)"
    using ensureTelegramUser_provisions [OF that]
    by (simp add: h bind_def truthy_def provisioned_session_def)
  have refused: "\<exists>e. h w = (Inl (SqliteError e), w\<lparr>tick := tick w + 4\<rparr>)"
    if "findTelegramUser (db w) ?c = None" "\<not> can_provision E ?c (tick w) (db w)"
    using ensureTelegramUser_refused [OF that]
    by (auto simp: h bind_def)
  show ?thesis
    using nokey quiet provisions refused fresh only withkey by blast
qed

lemma handlePhoto_unfold:
  "handlePhoto E msg = bind (ensureTelegramUser E msg) (\<lambda>user.
      if \<not> truthy (google_api_key user)
      then sendMessage E (msg_chat_id msg) txt_set_key_first
      else bind (sendChatAction E (msg_chat_id msg) (lit ''typing'')) (\<lambda>_.
      try_catch
        (case msg_photo msg of
           None \<Rightarrow> throw (TypeError (lit ''Cannot read properties of undefined (reading '' @ [0x27] @ lit ''length'' @ [0x27] @ lit '')''))
         | Some photos \<Rightarrow>
             if photos = []
             then throw (TypeError (lit ''Cannot read properties of undefined (reading '' @ [0x27] @ lit ''file_id'' @ [0x27] @ lit '')''))
             else
               bind (getFile E (file_id (last photos))) (\<lambda>file_path.
                 if \<not> truthy file_path then sendMessage E (msg_chat_id msg) txt_no_photo_file
                 else
                   bind (downloadFileBuffer E (or_else file_path [])) (\<lambda>buffer.
                     bind (sendMessage E (msg_chat_id msg) txt_analyzing) (\<lambda>_.
                     bind (analyzeReceiptImage E
                             (lit ''data:'' @
                              (if endsWith (or_else file_path []) (lit ''.png'')
                               then lit ''image/png'' else lit ''image/jpeg'') @
                              lit '';base64,'' @ toString_base64 E buffer) (google_api_key user))
                       (\<lambda>rawResult.
                       persistAnalysis E (msg_chat_id msg) user txt_photo_error_prefix rawResult
                         (or_null (msg_caption msg)))))))
        (\<lambda>err. sendMessage E (msg_chat_id msg)
                 (txt_photo_failed_prefix @ or_else (Some (message err)) txt_unknown_error))))"
  unfolding handlePhoto_def Let_def ..

lemma handleTextReceipt_unfold:
  "handleTextReceipt E msg = bind (ensureTelegramUser E msg) (\<lambda>user.
      if \<not> truthy (google_api_key user)
      then sendMessage E (msg_chat_id msg) txt_set_key_first
      else bind (sendChatAction E (msg_chat_id msg) (lit ''typing'')) (\<lambda>_.
      try_catch
        (bind (generateContent E (createGeminiModel E (google_api_key user))
                 (AnalyzeText (textPrompt msg)))
           (\<lambda>rawResult. persistAnalysis E (msg_chat_id msg) user txt_text_error_prefix
                          rawResult None))
        (\<lambda>err. sendMessage E (msg_chat_id msg)
                 (txt_text_failed_prefix @ or_else (Some (message err)) txt_unknown_error))))"
  unfolding handleTextReceipt_def Let_def ..

subsection \<open>Receipts are stored only on a parsed answer without an error\<close>


















subsection \<open>Verdicts are relayed\<close>












subsection \<open>The two paths\<close>



subsection \<open>Runs with a given answer of the extraction service\<close>

lemmas bridge_run_defs =
  handleTextReceipt_def handlePhoto_def ensureTelegramUser_def sendChatAction_def
  sendMessage_def try_catch_def generateContent_def analyzeReceiptImage_def
  createGeminiModel_def persistAnalysis_def getFile_def downloadFileBuffer_def
  bind_def return_def throw_def query_def findTelegramUser_def or_else_def truthy_def
  js_truthy_def or_null_def endsWith_def answering_env_def demo_env_def world_of_def
  demo_db_def text_message_def photo_message_def raw_empty_error_def raw_false_error_def
  raw_blurry_def parsed_blurry_def lit_def Let_def


lemma demo_unparsed_text_calls:
  "bridge_calls (snd (handleTextReceipt (answering_env (lit ''not json''))
                        (text_message (lit ''coffee 5 eur''))
                        (world_of (demo_db (Some (lit ''KEY'')) []))))
     = [(lit ''KEY'', AnalyzeText (textPrompt (text_message (lit ''coffee 5 eur''))),
         Inr (lit ''not json''))]"
  by (simp add: bridge_run_defs)






section \<open>The dispatcher tries its matchers in order\<close>

lemma spec_classify_unfold:
  "spec_classify msg =
     (let txt = spec_text msg in
      if startsWith txt (lit ''/start'') then Start
      else if startsWith txt (lit ''/setkey'') then SetKey
      else if startsWith txt (lit ''/stats'') then Stats
      else if startsWith txt (lit ''/history'') then History
      else if startsWith txt (lit ''/delete'') then Delete
      else if startsWith txt (lit ''/help'') then Help
      else case receiptMatch txt of
        Some p \<Rightarrow> ReceiptDetail p
      | None \<Rightarrow>
          if truthy_list (msg_photo msg) then Photo
          else if txt \<noteq> [] \<and> \<not> startsWith txt (lit ''/'') then TextReceipt
          else if startsWith txt (lit ''/'') then UnknownCommand
          else NoReply)"
  by (simp add: spec_classify_def spec_matchers_def spec_command_prefixes_def Let_def
        startsWith_Nil_left receiptMatch_Nil lit_def split: option.splits)

lemma handleMessage_refines:
  "handleMessage E msg = run_route E msg (spec_classify msg)"
  unfolding handleMessage_def or_else_text spec_classify_unfold Let_def
  by (simp add: run_route_def startsWith_Nil_left receiptMatch_Nil lit_def split: option.splits)

lemma command_prefix_tolerates_arguments:
  assumes "(p, r) \<in> set spec_command_prefixes" and "msg_text msg = Some (p @ rest)"
  shows "spec_classify msg = r"
proof -
  from assms(1) consider
      "p = lit ''/start''" "r = Start" | "p = lit ''/setkey''" "r = SetKey"
    | "p = lit ''/stats''" "r = Stats" | "p = lit ''/history''" "r = History"
    | "p = lit ''/delete''" "r = Delete" | "p = lit ''/help''" "r = Help"
    by (auto simp: spec_command_prefixes_def)
  then show ?thesis
    by cases
       (simp_all add: spec_classify_unfold spec_text_def assms(2) startsWith_def lit_def)
qed

lemma NoReply_iff:
  "spec_classify msg = NoReply \<longleftrightarrow> spec_text msg = [] \<and> \<not> truthy_list (msg_photo msg)"
  by (auto simp: spec_classify_unfold Let_def startsWith_Nil_left receiptMatch_Nil lit_def
        split: option.splits)

text \<open>
  C1. \<open>handleMessage\<close> does what the first matcher of the ordered list that accepts the
  message selects: the six command prefixes \<open>/start\<close>, \<open>/setkey\<close>, \<open>/stats\<close>, \<open>/history\<close>,
  \<open>/delete\<close>, \<open>/help\<close>, then the \<open>/receipt\<close> pattern, then a photo, then a non-empty text
  without a leading slash, then any text with a leading slash. A command prefix is
  matched as a prefix, so whatever follows it is tolerated and none of the six shadows
  another. A message that no matcher accepts is one with no text and no photo; the
  handler then returns without sending anything or changing the state.
\<close>

theorem handleMessage_first_match_wins:
  "handleMessage E msg = run_route E msg (spec_classify msg) \<and>
   (\<forall>p r rest. (p, r) \<in> set spec_command_prefixes \<and> msg_text msg = Some (p @ rest)
        \<longrightarrow> handleMessage E msg = run_route E msg r) \<and>
   (spec_classify msg = NoReply \<longleftrightarrow> spec_text msg = [] \<and> \<not> truthy_list (msg_photo msg)) \<and>
   (spec_classify msg = NoReply \<longrightarrow> handleMessage E msg w = (Inr (), w))"
proof (intro conjI allI impI)
  show "handleMessage E msg = run_route E msg (spec_classify msg)"
    by (rule handleMessage_refines)
next
  fix p r rest
  assume "(p, r) \<in> set spec_command_prefixes \<and> msg_text msg = Some (p @ rest)"
  then have "spec_classify msg = r"
    using command_prefix_tolerates_arguments by blast
  then show "handleMessage E msg = run_route E msg r"
    by (simp add: handleMessage_refines)
next
  show "spec_classify msg = NoReply \<longleftrightarrow> spec_text msg = [] \<and> \<not> truthy_list (msg_photo msg)"
    by (rule NoReply_iff)
next
  assume "spec_classify msg = NoReply"
  then show "handleMessage E msg w = (Inr (), w)"
    by (simp add: handleMessage_refines run_route_def return_def)
qed

theorem handleMessage_first_match_wins_witness:
  "handleMessage demo_env (text_message (lit ''/stats today''))
     = handleStats demo_env (text_message (lit ''/stats today'')) \<and>
   handleMessage demo_env
       \<lparr>msg_from = None, msg_chat_id = 42, msg_text = None, msg_photo = None,
        msg_caption = None\<rparr> (world_of empty_db)
     = (Inr (), world_of empty_db)"
proof -
  let ?m = "text_message (lit ''/stats today'')"
  let ?n = "\<lparr>msg_from = None, msg_chat_id = 42, msg_text = None, msg_photo = None,
             msg_caption = None\<rparr>"
  have pre: "(lit ''/stats'', Stats) \<in> set spec_command_prefixes \<and>
             msg_text ?m = Some (lit ''/stats'' @ lit '' today'')"
    by (simp add: spec_command_prefixes_def text_message_def lit_def)
  have none: "spec_text ?n = [] \<and> \<not> truthy_list (msg_photo ?n)"
    by (simp add: spec_text_def truthy_list_def)
  from handleMessage_first_match_wins [of demo_env ?m] pre
  have "handleMessage demo_env ?m = run_route demo_env ?m Stats"
    by blast
  moreover from handleMessage_first_match_wins [of demo_env ?n "world_of empty_db"] none
  have "handleMessage demo_env ?n (world_of empty_db) = (Inr (), world_of empty_db)"
    by blast
  ultimately show ?thesis
    by (simp add: run_route_def)
qed

section \<open>What the handlers do with an answer of the extraction service\<close>




section \<open>The credential gate of the photo and text handlers\<close>

lemma demo_session_photo:
  "findTelegramUser (db (world_of (demo_db k rs)))
     (String_of_chat demo_env (msg_chat_id photo_message))
   = Some \<lparr>chat_id = lit ''42'', user_id = lit ''uuid-xx'', google_api_key = k,
           tu_created_at = lit ''2026-01-01T00:00:00.000Z''\<rparr>"
  by (simp add: findTelegramUser_def world_of_def demo_db_def demo_env_def photo_message_def)

lemma demo_new_chat_photo_run:
  "handlePhoto demo_env photo_message (world_of empty_db) =
   (Inr (),
    \<lparr>db = \<lparr>users = [\<lparr>u_id = lit ''uuid-xx'', u_email = lit ''tg_42@telegram.local'',
                      u_password = lit ''salt:uuid-x'', u_name = lit ''Ada'',
                      u_created_at = lit ''2026-01-01T00:00:00.000Z''\<rparr>],
            receipts = [], receipt_items = [], user_receipts = [],
            telegram_users = [\<lparr>chat_id = lit ''42'', user_id = lit ''uuid-xx'',
                                google_api_key = None,
                                tu_created_at = lit ''2026-01-01T00:00:00.000Z''\<rparr>]\<rparr>,
      tick = 6, sent = [(42, txt_set_key_first)], chat_actions = [], bridge_calls = []\<rparr>)"
  by (simp add: run_defs handlePhoto_def ensureTelegramUser_def truthy_def photo_message_def)

text \<open>
  C3, as the claim states it, fails for a chat that has no session yet: both handlers
  provision the session before they look at the credential. A photo from a chat the empty
  database does not know is answered with the prompt to use \<open>/setkey\<close>, without a request
  to the extraction service, and leaves one Account and one session behind.
\<close>

theorem new_chat_photo_counterexample:
  "findTelegramUser (db (world_of empty_db))
     (String_of_chat demo_env (msg_chat_id photo_message)) = None \<and>
   users (db (world_of empty_db)) = [] \<and>
   sent (snd (handlePhoto demo_env photo_message (world_of empty_db)))
     = [(42, txt_set_key_first)] \<and>
   bridge_calls (snd (handlePhoto demo_env photo_message (world_of empty_db))) = [] \<and>
   map u_email (users (db (snd (handlePhoto demo_env photo_message (world_of empty_db)))))
     = [lit ''tg_42@telegram.local''] \<and>
   map (\<lambda>s. (chat_id s, google_api_key s))
     (telegram_users (db (snd (handlePhoto demo_env photo_message (world_of empty_db)))))
     = [(lit ''42'', None)]"
  by (simp add: demo_new_chat_photo_run)
     (simp add: findTelegramUser_def world_of_def empty_db_def)

text \<open>
  C3, amended. Let \<open>h\<close> be the photo handler or the text handler, run on a message \<open>msg\<close>
  in a state \<open>w\<close>.

  \<^item> When the chat has a session whose credential is unset or empty, the handler is exactly
    the sending of the prompt to use \<open>/setkey\<close>: the database is unchanged and no request
    goes to the extraction service.
  \<^item> When the chat has no session yet and the new Account id and the placeholder email of
    the chat are free, the handler adds exactly one Account and one session without a
    credential and then is the sending of the prompt.
  \<^item> When the chat has no session yet and the id or the email is taken, the Account INSERT
    throws: nothing is written and nothing is sent.
  \<^item> Without a session, in either case, no request goes to the extraction service and no
    receipt, line item or ownership link is written.
  \<^item> Whenever a run makes a request to the extraction service, the chat had a session
    with a non-empty credential.
  \<^item> Every request a run makes carries the credential of the session.
\<close>

theorem credential_gate:
  "\<forall>h \<in> {handlePhoto E msg, handleTextReceipt E msg}.
     (\<forall>u. findTelegramUser (db w) (String_of_chat E (msg_chat_id msg)) = Some u \<and>
          \<not> truthy (google_api_key u)
        \<longrightarrow> h w = sendMessage E (msg_chat_id msg) txt_set_key_first w \<and>
            db (snd (h w)) = db w \<and> bridge_calls (snd (h w)) = bridge_calls w) \<and>
     (findTelegramUser (db w) (String_of_chat E (msg_chat_id msg)) = None \<and>
      can_provision E (String_of_chat E (msg_chat_id msg)) (tick w) (db w)
        \<longrightarrow> h w = sendMessage E (msg_chat_id msg) txt_set_key_first
                    (w\<lparr>tick := tick w + 5,
                       db := provision E (String_of_chat E (msg_chat_id msg))
                               (getUserName msg) (tick w) (db w)\<rparr>)) \<and>
     (findTelegramUser (db w) (String_of_chat E (msg_chat_id msg)) = None \<and>
      \<not> can_provision E (String_of_chat E (msg_chat_id msg)) (tick w) (db w)
        \<longrightarrow> (\<exists>e. h w = (Inl (SqliteError e), w\<lparr>tick := tick w + 4\<rparr>))) \<and>
     (findTelegramUser (db w) (String_of_chat E (msg_chat_id msg)) = None
        \<longrightarrow> bridge_calls (snd (h w)) = bridge_calls w \<and>
            receipt_tables (snd (h w)) = receipt_tables w \<and>
            (sent (snd (h w)) = sent w \<or>
             sent (snd (h w)) = sent w @ [(msg_chat_id msg, txt_set_key_first)])) \<and>
     (bridge_calls (snd (h w)) \<noteq> bridge_calls w
        \<longrightarrow> (\<exists>u k. findTelegramUser (db w) (String_of_chat E (msg_chat_id msg)) = Some u \<and>
                   google_api_key u = Some k \<and> k \<noteq> [])) \<and>
     (\<forall>u k. findTelegramUser (db w) (String_of_chat E (msg_chat_id msg)) = Some u \<and>
            google_api_key u = Some k
        \<longrightarrow> filter (\<lambda>c. fst c \<noteq> k) (bridge_calls (snd (h w)))
              = filter (\<lambda>c. fst c \<noteq> k) (bridge_calls w))"
proof (intro ballI)
  fix h
  assume "h \<in> {handlePhoto E msg, handleTextReceipt E msg}"
  then consider "h = handlePhoto E msg" | "h = handleTextReceipt E msg"
    by blast
  then show "(\<forall>u. findTelegramUser (db w) (String_of_chat E (msg_chat_id msg)) = Some u \<and>
          \<not> truthy (google_api_key u)
        \<longrightarrow> h w = sendMessage E (msg_chat_id msg) txt_set_key_first w \<and>
            db (snd (h w)) = db w \<and> bridge_calls (snd (h w)) = bridge_calls w) \<and>
     (findTelegramUser (db w) (String_of_chat E (msg_chat_id msg)) = None \<and>
      can_provision E (String_of_chat E (msg_chat_id msg)) (tick w) (db w)
        \<longrightarrow> h w = sendMessage E (msg_chat_id msg) txt_set_key_first
                    (w\<lparr>tick := tick w + 5,
                       db := provision E (String_of_chat E (msg_chat_id msg))
                               (getUserName msg) (tick w) (db w)\<rparr>)) \<and>
     (findTelegramUser (db w) (String_of_chat E (msg_chat_id msg)) = None \<and>
      \<not> can_provision E (String_of_chat E (msg_chat_id msg)) (tick w) (db w)
        \<longrightarrow> (\<exists>e. h w = (Inl (SqliteError e), w\<lparr>tick := tick w + 4\<rparr>))) \<and>
     (findTelegramUser (db w) (String_of_chat E (msg_chat_id msg)) = None
        \<longrightarrow> bridge_calls (snd (h w)) = bridge_calls w \<and>
            receipt_tables (snd (h w)) = receipt_tables w \<and>
            (sent (snd (h w)) = sent w \<or>
             sent (snd (h w)) = sent w @ [(msg_chat_id msg, txt_set_key_first)])) \<and>
     (bridge_calls (snd (h w)) \<noteq> bridge_calls w
        \<longrightarrow> (\<exists>u k. findTelegramUser (db w) (String_of_chat E (msg_chat_id msg)) = Some u \<and>
                   google_api_key u = Some k \<and> k \<noteq> [])) \<and>
     (\<forall>u k. findTelegramUser (db w) (String_of_chat E (msg_chat_id msg)) = Some u \<and>
            google_api_key u = Some k
        \<longrightarrow> filter (\<lambda>c. fst c \<noteq> k) (bridge_calls (snd (h w)))
              = filter (\<lambda>c. fst c \<noteq> k) (bridge_calls w))"
  proof cases
    case 1
    show ?thesis
      unfolding 1
      by (rule handler_gate [OF handlePhoto_unfold])
         (rule keeps_other_keys_photo)
  next
    case 2
    show ?thesis
      unfolding 2
      by (rule handler_gate [OF handleTextReceipt_unfold])
         (rule keeps_other_keys_text)
  qed
qed

theorem credential_gate_witness:
  "handlePhoto demo_env photo_message (world_of (demo_db None []))
     = sendMessage demo_env 42 txt_set_key_first (world_of (demo_db None [])) \<and>
   handleTextReceipt demo_env (text_message (lit ''coffee 5 eur'')) (world_of (demo_db (Some []) []))
     = sendMessage demo_env 42 txt_set_key_first (world_of (demo_db (Some []) [])) \<and>
   handlePhoto demo_env photo_message (world_of empty_db)
     = (Inr (),
        \<lparr>db = provision demo_env (lit ''42'') (lit ''Ada'') 0 empty_db, tick = 6,
          sent = [(42, txt_set_key_first)], chat_actions = [], bridge_calls = []\<rparr>) \<and>
   handleTextReceipt demo_env (text_message (lit ''coffee 5 eur'')) (world_of taken_email_db)
     = (Inl (SqliteError (lit ''UNIQUE constraint failed: users.email'')),
        \<lparr>db = taken_email_db, tick = 4, sent = [], chat_actions = [], bridge_calls = []\<rparr>) \<and>
   filter (\<lambda>c. fst c \<noteq> lit ''KEY'')
     (bridge_calls (snd (handleTextReceipt demo_env (text_message (lit ''coffee 5 eur''))
                           (world_of (demo_db (Some (lit ''KEY'')) []))))) = [] \<and>
   (\<exists>u k. findTelegramUser (db (world_of (demo_db (Some (lit ''KEY'')) []))) (lit ''42'') = Some u \<and>
          google_api_key u = Some k \<and> k \<noteq> [])"
proof -
  let ?t = "text_message (lit ''coffee 5 eur'')"
  let ?E = "answering_env (lit ''not json'')"
  have photo: "handlePhoto demo_env photo_message (world_of (demo_db None []))
     = sendMessage demo_env 42 txt_set_key_first (world_of (demo_db None []))"
    using credential_gate [of demo_env photo_message "world_of (demo_db None [])"]
    by (simp add: demo_session_photo truthy_def) (simp add: photo_message_def)
  have body: "handleTextReceipt demo_env ?t (world_of (demo_db (Some []) []))
     = sendMessage demo_env 42 txt_set_key_first (world_of (demo_db (Some []) []))"
    using credential_gate [of demo_env ?t "world_of (demo_db (Some []) [])"]
    by (simp add: demo_session truthy_def) (simp add: text_message_def)
  have chats: "String_of_chat demo_env (msg_chat_id photo_message) = lit ''42''"
    "String_of_chat demo_env (msg_chat_id ?t) = lit ''42''"
    "msg_chat_id photo_message = 42" "msg_chat_id ?t = 42"
    "getUserName photo_message = lit ''Ada''" "String_of_chat demo_env 42 = lit ''42''"
    by (simp_all add: photo_message_def text_message_def demo_env_def getUserName_def lit_def)
  have none: "findTelegramUser (db (world_of empty_db)) (lit ''42'') = None"
    "findTelegramUser (db (world_of taken_email_db)) (lit ''42'') = None"
    by (simp_all add: findTelegramUser_def world_of_def empty_db_def taken_email_db_def)
  have free: "can_provision demo_env (lit ''42'') (tick (world_of empty_db)) (db (world_of empty_db))"
    by (simp add: can_provision_def world_of_def empty_db_def lit_def)
  have taken: "\<not> can_provision demo_env (lit ''42'') (tick (world_of taken_email_db))
                  (db (world_of taken_email_db))"
    by (simp add: can_provision_def world_of_def taken_email_db_def lit_def)
  have "handlePhoto demo_env photo_message (world_of empty_db)
          = sendMessage demo_env 42 txt_set_key_first
              ((world_of empty_db)\<lparr>tick := tick (world_of empty_db) + 5,
                 db := provision demo_env (lit ''42'') (lit ''Ada'') (tick (world_of empty_db))
                         (db (world_of empty_db))\<rparr>)"
    using credential_gate [of demo_env photo_message "world_of empty_db"] none(1) free
    by (simp add: chats)
  then have first: "handlePhoto demo_env photo_message (world_of empty_db)
     = (Inr (),
        \<lparr>db = provision demo_env (lit ''42'') (lit ''Ada'') 0 empty_db, tick = 6,
          sent = [(42, txt_set_key_first)], chat_actions = [], bridge_calls = []\<rparr>)"
    by (simp add: sendMessage_def world_of_def demo_env_def)
  from credential_gate [of demo_env ?t "world_of taken_email_db"] none(2) taken
  obtain e where run: "handleTextReceipt demo_env ?t (world_of taken_email_db)
          = (Inl (SqliteError e),
             (world_of taken_email_db)\<lparr>tick := tick (world_of taken_email_db) + 4\<rparr>)"
    by (auto simp: chats)
  have "fst (handleTextReceipt demo_env ?t (world_of taken_email_db))
          = Inl (SqliteError (lit ''UNIQUE constraint failed: users.email''))"
    by (simp add: run_defs handleTextReceipt_def ensureTelegramUser_def taken_email_db_def)
  with run have refused: "handleTextReceipt demo_env ?t (world_of taken_email_db)
     = (Inl (SqliteError (lit ''UNIQUE constraint failed: users.email'')),
        \<lparr>db = taken_email_db, tick = 4, sent = [], chat_actions = [], bridge_calls = []\<rparr>)"
    by (simp add: world_of_def)
  have w0: "bridge_calls (world_of d) = []" for d
    by (simp add: world_of_def)
  have calls: "filter (\<lambda>c. fst c \<noteq> lit ''KEY'')
     (bridge_calls (snd (handleTextReceipt demo_env ?t
                           (world_of (demo_db (Some (lit ''KEY'')) []))))) = []"
    using credential_gate [of demo_env ?t "world_of (demo_db (Some (lit ''KEY'')) [])"]
    by (simp add: demo_session) (simp add: w0)
  have chat: "String_of_chat ?E (msg_chat_id ?t) = lit ''42''"
    by (simp add: answering_env_def demo_env_def text_message_def)
  have "bridge_calls (snd (handleTextReceipt ?E ?t (world_of (demo_db (Some (lit ''KEY'')) []))))
          \<noteq> bridge_calls (world_of (demo_db (Some (lit ''KEY'')) []))"
    by (simp add: demo_unparsed_text_calls w0)
  with credential_gate [of ?E ?t "world_of (demo_db (Some (lit ''KEY'')) [])"]
  have only: "\<exists>u k. findTelegramUser (db (world_of (demo_db (Some (lit ''KEY'')) []))) (lit ''42'')
                  = Some u \<and> google_api_key u = Some k \<and> k \<noteq> []"
    by (simp add: chat)
  from photo body first refused calls only show ?thesis
    by (simp only: simp_thms)
qed

section \<open>Provisioning a session is idempotent\<close>

text \<open>
  C4. When \<open>getOrCreateTelegramUser\<close> has returned a session for a chat identity, a second
  call with the same identity (under any display name) returns that same session, hence
  the same Account, and leaves the whole state as it was: no Account and no session row
  is added.
\<close>

theorem getOrCreateTelegramUser_idempotent:
  assumes "getOrCreateTelegramUser E c nm w = (Inr u, w1)"
  shows "getOrCreateTelegramUser E c nm' w1 = (Inr u, w1)"
proof (cases "findTelegramUser (db w) c")
  case (Some existing)
  with assms have "u = existing" "w1 = w"
    by (auto simp: getOrCreateTelegramUser_def)
  with Some show ?thesis
    by (simp add: getOrCreateTelegramUser_def)
next
  case None
  with assms have cr: "createTelegramUser E c nm w = (Inr u, w1)"
    by (simp add: getOrCreateTelegramUser_def)
  from createTelegramUser_result [OF cr] obtain urow where
    u: "chat_id u = c" and
    d: "db w1 = (db w)\<lparr>users := users (db w) @ [urow],
                        telegram_users := telegram_users (db w) @ [u]\<rparr>"
    by blast
  from None have "findTelegramUser ((db w)\<lparr>users := users (db w) @ [urow]\<rparr>) c = None"
    by (simp add: findTelegramUser_def)
  from findTelegramUser_append_new [OF this u] have "findTelegramUser (db w1) c = Some u"
    by (simp add: d)
  then show ?thesis
    by (simp add: getOrCreateTelegramUser_def)
qed

theorem getOrCreateTelegramUser_idempotent_witness:
  "\<exists>u w1. getOrCreateTelegramUser demo_env (lit ''42'') (lit ''Ada'') (world_of empty_db)
             = (Inr u, w1) \<and>
          user_id u = lit ''uuid-xx'' \<and> length (users (db w1)) = 1 \<and>
          getOrCreateTelegramUser demo_env (lit ''42'') (lit ''Ada L.'') w1 = (Inr u, w1)"
proof -
  let ?u = "\<lparr>chat_id = lit ''42'', user_id = lit ''uuid-xx'', google_api_key = None,
             tu_created_at = lit ''2026-01-01T00:00:00.000Z''\<rparr>"
  let ?w1 =
    "\<lparr>db = \<lparr>users = [\<lparr>u_id = lit ''uuid-xx'', u_email = lit ''tg_42@telegram.local'',
                       u_password = lit ''salt:uuid-x'', u_name = lit ''Ada'',
                       u_created_at = lit ''2026-01-01T00:00:00.000Z''\<rparr>],
             receipts = [], receipt_items = [], user_receipts = [],
             telegram_users = [?u]\<rparr>,
      tick = 5, sent = [], chat_actions = [], bridge_calls = []\<rparr>"
  have first: "getOrCreateTelegramUser demo_env (lit ''42'') (lit ''Ada'') (world_of empty_db)
                 = (Inr ?u, ?w1)"
    by (simp add: getOrCreateTelegramUser_def findTelegramUser_def createTelegramUser_def
        createUser_def bind_def return_def randomUUID_def hashPassword_def toISOString_now_def
        run_stmt_def insert_user_def insert_telegram_user_def demo_env_def world_of_def
        empty_db_def lit_def Let_def)
  from getOrCreateTelegramUser_idempotent [OF first]
  have "getOrCreateTelegramUser demo_env (lit ''42'') (lit ''Ada L.'') ?w1 = (Inr ?u, ?w1)" .
  with first show ?thesis
    by (intro exI [of _ ?u] exI [of _ ?w1]) (simp add: lit_def)
qed

section \<open>\<open>/setkey\<close> without a key\<close>

lemma handleSetKey_usage:
  assumes "length (split_ws (or_else (msg_text msg) [])) < 2
           \<or> split_ws (or_else (msg_text msg) []) ! 1 = []"
  shows "handleSetKey E msg =
           bind (getOrCreateTelegramUser E (String_of_chat E (msg_chat_id msg)) (getUserName msg))
             (\<lambda>_. sendMessage E (msg_chat_id msg) txt_setkey_usage)"
  using assms by (auto simp: handleSetKey_def Let_def)

lemma handleMessage_setkey:
  assumes "startsWith (or_else (msg_text msg) []) (lit ''/setkey'')"
  shows "handleMessage E msg = handleSetKey E msg"
proof -
  from assms have "\<not> startsWith (or_else (msg_text msg) []) (lit ''/start'')"
    by (rule startsWith_exclusive [where n = 3]) (simp_all add: lit_def)
  with assms show ?thesis
    by (simp add: handleMessage_def Let_def)
qed

lemma demo_setkey_run:
  "handleMessage demo_env (text_message (lit ''/setkey'')) (world_of empty_db) =
   (Inr (),
    \<lparr>db = \<lparr>users = [\<lparr>u_id = lit ''uuid-xx'', u_email = lit ''tg_42@telegram.local'',
                      u_password = lit ''salt:uuid-x'', u_name = lit ''Ada'',
                      u_created_at = lit ''2026-01-01T00:00:00.000Z''\<rparr>],
            receipts = [], receipt_items = [], user_receipts = [],
            telegram_users = [\<lparr>chat_id = lit ''42'', user_id = lit ''uuid-xx'',
                                google_api_key = None,
                                tu_created_at = lit ''2026-01-01T00:00:00.000Z''\<rparr>]\<rparr>,
      tick = 6, sent = [(42, txt_setkey_usage)], chat_actions = [], bridge_calls = []\<rparr>)"
  by (simp add: run_defs)

text \<open>
  What a \<open>/setkey\<close> without a key can change, whatever the environment does: no
  credential, no session that existed, and at most the provisioning of the chat.
\<close>

lemma setkey_usage_frame:
  assumes cmd: "startsWith (or_else (msg_text msg) []) (lit ''/setkey'')"
    and notoken: "length (split_ws (or_else (msg_text msg) [])) < 2
                  \<or> split_ws (or_else (msg_text msg) []) ! 1 = []"
    and run: "handleMessage E msg w = (r, w')"
  shows "(\<forall>c'. getGoogleApiKey (db w') c' = getGoogleApiKey (db w) c') \<and>
         (\<forall>c' u. findTelegramUser (db w) c' = Some u \<longrightarrow> findTelegramUser (db w') c' = Some u) \<and>
         (findTelegramUser (db w) (String_of_chat E (msg_chat_id msg)) \<noteq> None \<longrightarrow> db w' = db w) \<and>
         (db w' = db w \<or>
          (\<exists>u urow. chat_id u = String_of_chat E (msg_chat_id msg) \<and> google_api_key u = None \<and>
             db w' = (db w)\<lparr>users := users (db w) @ [urow],
                            telegram_users := telegram_users (db w) @ [u]\<rparr>)) \<and>
         (sent w' = sent w \<or> sent w' = sent w @ [(msg_chat_id msg, txt_setkey_usage)]) \<and>
         (r = Inr () \<longrightarrow> sent w' = sent w @ [(msg_chat_id msg, txt_setkey_usage)])"
proof -
  let ?c = "String_of_chat E (msg_chat_id msg)"
  obtain r1 w1 where g: "getOrCreateTelegramUser E ?c (getUserName msg) w = (r1, w1)"
    by (cases "getOrCreateTelegramUser E ?c (getUserName msg) w")
  note gc = getOrCreateTelegramUser_cases [OF g]
  from run have h: "handleSetKey E msg w = (r, w')"
    by (simp add: handleMessage_setkey [OF cmd])
  have dbs: "db w1 = db w \<or>
        (findTelegramUser (db w) ?c = None \<and>
         (\<exists>u urow. chat_id u = ?c \<and> google_api_key u = None \<and>
            db w1 = (db w)\<lparr>users := users (db w) @ [urow],
                           telegram_users := telegram_users (db w) @ [u]\<rparr>))"
    using gc by (auto split: option.splits)
  have keys: "\<forall>c'. getGoogleApiKey (db w1) c' = getGoogleApiKey (db w) c'"
    using dbs
    by (auto simp: getGoogleApiKey_def findTelegramUser_def find_append_case
          split: option.splits if_splits)
  have sess: "\<forall>c' u. findTelegramUser (db w) c' = Some u \<longrightarrow> findTelegramUser (db w1) c' = Some u"
    using dbs by (auto simp: findTelegramUser_def find_append_case)
  have reg: "findTelegramUser (db w) ?c \<noteq> None \<longrightarrow> db w1 = db w"
    using dbs by auto
  have shape: "db w1 = db w \<or>
          (\<exists>u urow. chat_id u = ?c \<and> google_api_key u = None \<and>
             db w1 = (db w)\<lparr>users := users (db w) @ [urow],
                            telegram_users := telegram_users (db w) @ [u]\<rparr>)"
    using dbs by auto
  show ?thesis
  proof (cases r1)
    case (Inl e)
    with h g have "r = Inl e" "w' = w1"
      by (auto simp: handleSetKey_usage [OF notoken] bind_def)
    with keys sess reg shape gc show ?thesis by auto
  next
    case (Inr u)
    with h g have s: "sendMessage E (msg_chat_id msg) txt_setkey_usage w1 = (r, w')"
      by (auto simp: handleSetKey_usage [OF notoken] bind_def)
    from sendMessage_frame [of E "msg_chat_id msg" txt_setkey_usage w1] s
    have "db w' = db w1" by simp
    with keys sess reg shape sendMessage_sent [OF s] gc show ?thesis by auto
  qed
qed

text \<open>
  C5, as the claim states it, fails: \<open>handleSetKey\<close> provisions the session before it
  looks at the argument. On the empty database the message \<open>/setkey\<close> is answered with
  the usage error and leaves one Account and one session behind.
\<close>

theorem setkey_without_token_counterexample:
  "users (db (world_of empty_db)) = [] \<and>
   telegram_users (db (world_of empty_db)) = [] \<and>
   length (split_ws (lit ''/setkey'')) = 1 \<and>
   sent (snd (handleMessage demo_env (text_message (lit ''/setkey'')) (world_of empty_db)))
     = [(42, txt_setkey_usage)] \<and>
   length (users (db (snd (handleMessage demo_env (text_message (lit ''/setkey''))
                             (world_of empty_db))))) = 1 \<and>
   length (telegram_users (db (snd (handleMessage demo_env (text_message (lit ''/setkey''))
                                      (world_of empty_db))))) = 1"
  by (simp add: demo_setkey_run)
     (simp add: world_of_def empty_db_def split_ws_def isWhitespace_def lit_def)

text \<open>
  C5, amended. A message that starts with \<open>/setkey\<close> and has no second
  whitespace-separated token stores and changes no credential: every chat identity has
  the credential it had, and every session that existed is unchanged.

  \<^item> When the chat already has a session, the handler is exactly the sending of the usage
    error: the database is left as it was.
  \<^item> When the chat has no session and the new Account id and the placeholder email of the
    chat are free, the handler adds exactly one Account and one session without a
    credential and then is the sending of the usage error.
  \<^item> When the chat has no session and the id or the email is taken, the Account INSERT
    throws: nothing is written and nothing is sent.

  The only message that can be sent is the usage error, and it is sent whenever the
  handler returns normally.
\<close>

theorem setkey_without_token:
  assumes cmd: "startsWith (or_else (msg_text msg) []) (lit ''/setkey'')"
    and notoken: "length (split_ws (or_else (msg_text msg) [])) < 2
                  \<or> split_ws (or_else (msg_text msg) []) ! 1 = []"
  shows "(\<forall>u. findTelegramUser (db w) (String_of_chat E (msg_chat_id msg)) = Some u \<longrightarrow>
            handleMessage E msg w = sendMessage E (msg_chat_id msg) txt_setkey_usage w) \<and>
         (findTelegramUser (db w) (String_of_chat E (msg_chat_id msg)) = None \<and>
          can_provision E (String_of_chat E (msg_chat_id msg)) (tick w) (db w) \<longrightarrow>
            handleMessage E msg w
              = sendMessage E (msg_chat_id msg) txt_setkey_usage
                  (w\<lparr>tick := tick w + 5,
                     db := provision E (String_of_chat E (msg_chat_id msg)) (getUserName msg)
                             (tick w) (db w)\<rparr>)) \<and>
         (findTelegramUser (db w) (String_of_chat E (msg_chat_id msg)) = None \<and>
          \<not> can_provision E (String_of_chat E (msg_chat_id msg)) (tick w) (db w) \<longrightarrow>
            (\<exists>e. handleMessage E msg w = (Inl (SqliteError e), w\<lparr>tick := tick w + 4\<rparr>))) \<and>
         (\<forall>c'. getGoogleApiKey (db (snd (handleMessage E msg w))) c'
                 = getGoogleApiKey (db w) c') \<and>
         (\<forall>c' u. findTelegramUser (db w) c' = Some u \<longrightarrow>
                 findTelegramUser (db (snd (handleMessage E msg w))) c' = Some u) \<and>
         (sent (snd (handleMessage E msg w)) = sent w \<or>
          sent (snd (handleMessage E msg w)) = sent w @ [(msg_chat_id msg, txt_setkey_usage)]) \<and>
         (fst (handleMessage E msg w) = Inr () \<longrightarrow>
            sent (snd (handleMessage E msg w)) = sent w @ [(msg_chat_id msg, txt_setkey_usage)])"
proof -
  let ?c = "String_of_chat E (msg_chat_id msg)"
  let ?usage = "sendMessage E (msg_chat_id msg) txt_setkey_usage"
  have run: "handleMessage E msg w
               = bind (getOrCreateTelegramUser E ?c (getUserName msg)) (\<lambda>_. ?usage) w"
    by (simp add: handleMessage_setkey [OF cmd] handleSetKey_usage [OF notoken])
  have registered: "handleMessage E msg w = ?usage w"
    if "findTelegramUser (db w) ?c = Some u" for u
    using that by (simp add: run bind_def getOrCreateTelegramUser_run)
  have provisions: "handleMessage E msg w
      = ?usage (w\<lparr>tick := tick w + 5,
                  db := provision E ?c (getUserName msg) (tick w) (db w)\<rparr>)"
    if "findTelegramUser (db w) ?c = None" "can_provision E ?c (tick w) (db w)"
    using that createTelegramUser_provisions [OF that(2,1)]
    by (simp add: run bind_def getOrCreateTelegramUser_run)
  have refused: "\<exists>e. handleMessage E msg w = (Inl (SqliteError e), w\<lparr>tick := tick w + 4\<rparr>)"
    if "findTelegramUser (db w) ?c = None" "\<not> can_provision E ?c (tick w) (db w)"
    using that createTelegramUser_refused [OF that(2), of "getUserName msg"]
    by (auto simp: run bind_def getOrCreateTelegramUser_run)
  have "handleMessage E msg w = (fst (handleMessage E msg w), snd (handleMessage E msg w))"
    by simp
  note frame = setkey_usage_frame [OF cmd notoken this]
  show ?thesis
    using registered provisions refused frame by blast
qed

theorem setkey_without_token_witness:
  "startsWith (or_else (msg_text (text_message (lit ''/setkey''))) []) (lit ''/setkey'') \<and>
   length (split_ws (or_else (msg_text (text_message (lit ''/setkey''))) [])) < 2 \<and>
   handleMessage demo_env (text_message (lit ''/setkey'')) (world_of (demo_db None []))
     = sendMessage demo_env 42 txt_setkey_usage (world_of (demo_db None [])) \<and>
   handleMessage demo_env (text_message (lit ''/setkey'')) (world_of empty_db)
     = (Inr (),
        \<lparr>db = provision demo_env (lit ''42'') (lit ''Ada'') 0 empty_db, tick = 6,
          sent = [(42, txt_setkey_usage)], chat_actions = [], bridge_calls = []\<rparr>) \<and>
   (\<exists>e. handleMessage demo_env (text_message (lit ''/setkey'')) (world_of taken_email_db)
          = (Inl (SqliteError e),
             \<lparr>db = taken_email_db, tick = 4, sent = [], chat_actions = [],
               bridge_calls = []\<rparr>)) \<and>
   getGoogleApiKey
     (db (snd (handleMessage demo_env (text_message (lit ''/setkey'')) (world_of empty_db))))
     (lit ''42'') = None"
proof -
  let ?m = "text_message (lit ''/setkey'')"
  have cmd: "startsWith (or_else (msg_text ?m) []) (lit ''/setkey'')"
    by (simp add: text_message_def or_else_def startsWith_def lit_def)
  have short: "length (split_ws (or_else (msg_text ?m) [])) < 2"
    by (simp add: text_message_def or_else_def split_ws_def isWhitespace_def lit_def)
  then have notoken: "length (split_ws (or_else (msg_text ?m) [])) < 2
                      \<or> split_ws (or_else (msg_text ?m) []) ! 1 = []" ..
  have chats: "String_of_chat demo_env (msg_chat_id ?m) = lit ''42''" "msg_chat_id ?m = 42"
    "getUserName ?m = lit ''Ada''" "String_of_chat demo_env 42 = lit ''42''"
    by (simp_all add: text_message_def demo_env_def getUserName_def lit_def)
  have none: "findTelegramUser (db (world_of empty_db)) (lit ''42'') = None"
    "findTelegramUser (db (world_of taken_email_db)) (lit ''42'') = None"
    by (simp_all add: findTelegramUser_def world_of_def empty_db_def taken_email_db_def)
  have free: "can_provision demo_env (lit ''42'') (tick (world_of empty_db)) (db (world_of empty_db))"
    by (simp add: can_provision_def world_of_def empty_db_def lit_def)
  have taken: "\<not> can_provision demo_env (lit ''42'') (tick (world_of taken_email_db))
                  (db (world_of taken_email_db))"
    by (simp add: can_provision_def world_of_def taken_email_db_def lit_def)
  note t = setkey_without_token [OF cmd notoken, of _ demo_env]
  have known: "handleMessage demo_env ?m (world_of (demo_db None []))
     = sendMessage demo_env 42 txt_setkey_usage (world_of (demo_db None []))"
    using t [of "world_of (demo_db None [])"] demo_session [of None "[]" "lit ''/setkey''"]
    by (simp add: chats)
  have "handleMessage demo_env ?m (world_of empty_db)
          = sendMessage demo_env 42 txt_setkey_usage
              ((world_of empty_db)\<lparr>tick := tick (world_of empty_db) + 5,
                 db := provision demo_env (lit ''42'') (lit ''Ada'') (tick (world_of empty_db))
                         (db (world_of empty_db))\<rparr>)"
    using t [of "world_of empty_db"] none(1) free by (simp add: chats)
  then have first: "handleMessage demo_env ?m (world_of empty_db)
     = (Inr (),
        \<lparr>db = provision demo_env (lit ''42'') (lit ''Ada'') 0 empty_db, tick = 6,
          sent = [(42, txt_setkey_usage)], chat_actions = [], bridge_calls = []\<rparr>)"
    by (simp add: sendMessage_def world_of_def demo_env_def)
  from t [of "world_of taken_email_db"] none(2) taken
  obtain e where "handleMessage demo_env ?m (world_of taken_email_db)
          = (Inl (SqliteError e),
             (world_of taken_email_db)\<lparr>tick := tick (world_of taken_email_db) + 4\<rparr>)"
    by (auto simp: chats)
  then have refused: "\<exists>e. handleMessage demo_env ?m (world_of taken_email_db)
          = (Inl (SqliteError e),
             \<lparr>db = taken_email_db, tick = 4, sent = [], chat_actions = [],
               bridge_calls = []\<rparr>)"
    by (simp add: world_of_def)
  from t [of "world_of empty_db"]
  have "getGoogleApiKey (db (snd (handleMessage demo_env ?m (world_of empty_db)))) (lit ''42'')
          = getGoogleApiKey (db (world_of empty_db)) (lit ''42'')"
    by blast
  then have key: "getGoogleApiKey
      (db (snd (handleMessage demo_env ?m (world_of empty_db)))) (lit ''42'') = None"
    by (simp add: getGoogleApiKey_def none)
  from cmd short known first refused key show ?thesis
    by (simp only: simp_thms)
qed

section \<open>The statistics of an account\<close>







text \<open>
  The engine of the examples on their values. It rounds: the mean of 1, 1 and 2 is the
  double next to 4/3.
\<close>

lemma demo_engine_rounds:
  "ieee_avg [Finite 1, Finite 1, Finite 2]
     = Some (Finite (6004799503160661 / 4503599627370496))"
  by code_simp





section \<open>\<open>/history\<close> lists the ten most recently linked receipts\<close>

lemma handleHistory_registered:
  assumes "findTelegramUser (db w) (String_of_chat E (msg_chat_id msg)) = Some u"
  shows "handleHistory E msg w =
           sendMessage E (msg_chat_id msg)
             (if getUserReceipts (db w) (user_id u) = [] then txt_no_receipts
              else historyText E (take 10 (getUserReceipts (db w) (user_id u)))) w"
  using assms by (simp add: handleHistory_def bind_def query_def Let_def)

text \<open>
  The history text, spelled out: the heading with the number of entries, one line for each
  entry with the first 8 code units of the id, the date, the store, the total and the
  currency, and the hint at \<open>/receipt\<close>.
\<close>

lemma historyText_spelled:
  "historyText E rs =
     [0xD83D, 0xDCCB] @ lit '' <b>'' @ [0x6700, 0x8FD1] @ lit '' '' @
     Number_toString E (Finite (of_nat (length rs))) @
     lit '' '' @ [0x6761, 0x8D26, 0x5355] @ lit ''</b>'' @ [0xA, 0xA] @
     concat (map (\<lambda>r.
        [0xD83E, 0xDDFE] @ lit '' <code>'' @ take 8 (r_id r) @ lit ''</code> | '' @
        (case date r of None \<Rightarrow> [0x672A, 0x77E5]
         | Some s \<Rightarrow> if s = [] then [0x672A, 0x77E5] else s) @ lit '' | '' @
        (case store_name r of None \<Rightarrow> [0x672A, 0x77E5]
         | Some s \<Rightarrow> if s = [] then [0x672A, 0x77E5] else s) @ lit '' | '' @
        (case total_amount r of None \<Rightarrow> lit ''?'' | Some x \<Rightarrow> Number_toString E x) @
        lit '' '' @ (case currency r of None \<Rightarrow> [] | Some s \<Rightarrow> s) @ [0xA]) rs) @
     [0xA, 0x67E5, 0x770B, 0x8BE6, 0x60C5] @ lit '': /receipt_ID'' @ [0x524D] @ lit ''8'' @
     [0x4F4D]"
proof -
  have line: "historyLine E = (\<lambda>r.
        [0xD83E, 0xDDFE] @ lit '' <code>'' @ take 8 (r_id r) @ lit ''</code> | '' @
        (case date r of None \<Rightarrow> [0x672A, 0x77E5]
         | Some s \<Rightarrow> if s = [] then [0x672A, 0x77E5] else s) @ lit '' | '' @
        (case store_name r of None \<Rightarrow> [0x672A, 0x77E5]
         | Some s \<Rightarrow> if s = [] then [0x672A, 0x77E5] else s) @ lit '' | '' @
        (case total_amount r of None \<Rightarrow> lit ''?'' | Some x \<Rightarrow> Number_toString E x) @
        lit '' '' @ (case currency r of None \<Rightarrow> [] | Some s \<Rightarrow> s) @ [0xA])"
    by (rule ext)
       (simp add: historyLine_def Let_def substring0_def or_else_def num_or_def
          split: option.splits)
  show ?thesis
    unfolding historyText_def line by simp
qed

text \<open>
  C7. For a chat with a session, a message that starts with \<open>/history\<close> is answered with
  one message: the "no receipts yet" text when the account's listing is empty, and
  otherwise the heading, one line for each of the first ten entries of the listing, in
  the order of the listing, and the hint. A line shows the first 8 code units of the
  receipt's id, its date, store, total and currency. The listing is a rearrangement of
  the account's linked receipts (under the schema's constraints it has as many entries
  as the account has linked receipts), it is ordered by the links' added-at timestamps,
  newest first, so the entries shown are min 10 n in number and none of those left out
  was linked later than one that is shown.
\<close>

theorem handleHistory_ten_most_recent:
  assumes cmd: "startsWith (or_else (msg_text msg) []) (lit ''/history'')"
    and reg: "findTelegramUser (db w) (String_of_chat E (msg_chat_id msg)) = Some u"
  shows "handleMessage E msg w =
           sendMessage E (msg_chat_id msg)
             (if getUserReceipts (db w) (user_id u) = []
              then [0xD83D, 0xDCED] @ lit '' '' @
                   [0x6682, 0x65E0, 0x8D26, 0x5355, 0x8BB0, 0x5F55, 0x3002, 0x53D1, 0x9001,
                    0x4E00, 0x5F20, 0x8D26, 0x5355, 0x7167, 0x7247, 0x5F00, 0x59CB, 0x5427,
                    0xFF01]
              else [0xD83D, 0xDCCB] @ lit '' <b>'' @ [0x6700, 0x8FD1] @ lit '' '' @
                Number_toString E
                  (Finite (of_nat (length (take 10 (getUserReceipts (db w) (user_id u)))))) @
                lit '' '' @ [0x6761, 0x8D26, 0x5355] @ lit ''</b>'' @ [0xA, 0xA] @
                concat (map (\<lambda>r.
                   [0xD83E, 0xDDFE] @ lit '' <code>'' @ take 8 (r_id r) @ lit ''</code> | '' @
                   (case date r of None \<Rightarrow> [0x672A, 0x77E5]
                    | Some s \<Rightarrow> if s = [] then [0x672A, 0x77E5] else s) @ lit '' | '' @
                   (case store_name r of None \<Rightarrow> [0x672A, 0x77E5]
                    | Some s \<Rightarrow> if s = [] then [0x672A, 0x77E5] else s) @ lit '' | '' @
                   (case total_amount r of None \<Rightarrow> lit ''?''
                    | Some x \<Rightarrow> Number_toString E x) @
                   lit '' '' @ (case currency r of None \<Rightarrow> [] | Some s \<Rightarrow> s) @ [0xA])
                  (take 10 (getUserReceipts (db w) (user_id u)))) @
                [0xA, 0x67E5, 0x770B, 0x8BE6, 0x60C5] @ lit '': /receipt_ID'' @ [0x524D] @
                lit ''8'' @ [0x4F4D]) w \<and>
         handleMessage E msg w =
           sendMessage E (msg_chat_id msg)
             (if getUserReceipts (db w) (user_id u) = [] then txt_no_receipts
              else historyText E (take 10 (getUserReceipts (db w) (user_id u)))) w \<and>
         mset (getUserReceipts (db w) (user_id u))
           = mset (map (toDetails (db w)) (joined_rows (db w) (user_id u))) \<and>
         (schema_ok (db w) \<longrightarrow>
            length (getUserReceipts (db w) (user_id u))
              = length (linked_receipts (db w) (user_id u))) \<and>
         length (take 10 (getUserReceipts (db w) (user_id u)))
           = min 10 (length (getUserReceipts (db w) (user_id u))) \<and>
         sorted_wrt (\<lambda>a b. added_at b \<le> added_at a) (getUserReceipts (db w) (user_id u)) \<and>
         (\<forall>a \<in> set (take 10 (getUserReceipts (db w) (user_id u))).
          \<forall>b \<in> set (drop 10 (getUserReceipts (db w) (user_id u))). added_at b \<le> added_at a)"
proof (intro conjI impI ballI)
  have run: "handleMessage E msg w =
           sendMessage E (msg_chat_id msg)
             (if getUserReceipts (db w) (user_id u) = [] then txt_no_receipts
              else historyText E (take 10 (getUserReceipts (db w) (user_id u)))) w"
    by (simp only: handleMessage_history [OF cmd] handleHistory_registered [OF reg])
  then show "handleMessage E msg w =
           sendMessage E (msg_chat_id msg)
             (if getUserReceipts (db w) (user_id u) = [] then txt_no_receipts
              else historyText E (take 10 (getUserReceipts (db w) (user_id u)))) w" .
  show "handleMessage E msg w =
           sendMessage E (msg_chat_id msg)
             (if getUserReceipts (db w) (user_id u) = []
              then [0xD83D, 0xDCED] @ lit '' '' @
                   [0x6682, 0x65E0, 0x8D26, 0x5355, 0x8BB0, 0x5F55, 0x3002, 0x53D1, 0x9001,
                    0x4E00, 0x5F20, 0x8D26, 0x5355, 0x7167, 0x7247, 0x5F00, 0x59CB, 0x5427,
                    0xFF01]
              else [0xD83D, 0xDCCB] @ lit '' <b>'' @ [0x6700, 0x8FD1] @ lit '' '' @
                Number_toString E
                  (Finite (of_nat (length (take 10 (getUserReceipts (db w) (user_id u)))))) @
                lit '' '' @ [0x6761, 0x8D26, 0x5355] @ lit ''</b>'' @ [0xA, 0xA] @
                concat (map (\<lambda>r.
                   [0xD83E, 0xDDFE] @ lit '' <code>'' @ take 8 (r_id r) @ lit ''</code> | '' @
                   (case date r of None \<Rightarrow> [0x672A, 0x77E5]
                    | Some s \<Rightarrow> if s = [] then [0x672A, 0x77E5] else s) @ lit '' | '' @
                   (case store_name r of None \<Rightarrow> [0x672A, 0x77E5]
                    | Some s \<Rightarrow> if s = [] then [0x672A, 0x77E5] else s) @ lit '' | '' @
                   (case total_amount r of None \<Rightarrow> lit ''?''
                    | Some x \<Rightarrow> Number_toString E x) @
                   lit '' '' @ (case currency r of None \<Rightarrow> [] | Some s \<Rightarrow> s) @ [0xA])
                  (take 10 (getUserReceipts (db w) (user_id u)))) @
                [0xA, 0x67E5, 0x770B, 0x8BE6, 0x60C5] @ lit '': /receipt_ID'' @ [0x524D] @
                lit ''8'' @ [0x4F4D]) w"
    unfolding run historyText_spelled txt_no_receipts_def ..
next
  show "mset (getUserReceipts (db w) (user_id u))
          = mset (map (toDetails (db w)) (joined_rows (db w) (user_id u)))"
    by (rule getUserReceipts_mset)
next
  assume ok: "schema_ok (db w)"
  have "length (getUserReceipts (db w) (user_id u)) = length (map fst (joined_rows (db w) (user_id u)))"
    using getUserReceipts_mset [of "db w" "user_id u"] mset_eq_length by fastforce
  also have "\<dots> = length (linked_receipts (db w) (user_id u))"
    using joined_mset [OF ok, of "user_id u"] by (rule mset_eq_length)
  finally show "length (getUserReceipts (db w) (user_id u))
                  = length (linked_receipts (db w) (user_id u))" .
next
  show "length (take 10 (getUserReceipts (db w) (user_id u)))
          = min 10 (length (getUserReceipts (db w) (user_id u)))"
    by simp
next
  show "sorted_wrt (\<lambda>a b. added_at b \<le> added_at a) (getUserReceipts (db w) (user_id u))"
    by (rule getUserReceipts_sorted)
next
  fix a b
  assume "a \<in> set (take 10 (getUserReceipts (db w) (user_id u)))"
    and "b \<in> set (drop 10 (getUserReceipts (db w) (user_id u)))"
  with getUserReceipts_sorted [of "db w" "user_id u"]
  show "added_at b \<le> added_at a"
    by (rule sorted_wrt_take_drop)
qed

lemma twelve_listing:
  "map r_id (getUserReceipts (demo_db None twelve_receipts) (lit ''uuid-xx''))
     = [lit ''r12'', lit ''r11'', lit ''r10'', lit ''r09'', lit ''r08'', lit ''r07'',
        lit ''r06'', lit ''r05'', lit ''r04'', lit ''r03'', lit ''r02'', lit ''r01'']"
  by (simp add: getUserReceipts_def joined_rows_def order_by_desc_def toDetails_def
       getReceiptItems_def demo_db_def demo_receipt_def demo_link_def twelve_receipts_def
       lit_def)

lemma twelve_history_text:
  "historyText demo_env
     (take 10 (getUserReceipts (demo_db None twelve_receipts) (lit ''uuid-xx'')))
   = [0xD83D, 0xDCCB] @ lit '' <b>'' @ [0x6700, 0x8FD1] @ lit '' 10 '' @
          [0x6761, 0x8D26, 0x5355] @ lit ''</b>'' @ [0xA, 0xA, 0xD83E, 0xDDFE] @
          lit '' <code>r12</code> | 2026-01-01 | Cafe | 12 EUR'' @ [0xA, 0xD83E, 0xDDFE] @
          lit '' <code>r11</code> | 2026-01-01 | Cafe | 11 EUR'' @ [0xA, 0xD83E, 0xDDFE] @
          lit '' <code>r10</code> | 2026-01-01 | Cafe | 10 EUR'' @ [0xA, 0xD83E, 0xDDFE] @
          lit '' <code>r09</code> | 2026-01-01 | Cafe | 9 EUR'' @ [0xA, 0xD83E, 0xDDFE] @
          lit '' <code>r08</code> | 2026-01-01 | Cafe | 8 EUR'' @ [0xA, 0xD83E, 0xDDFE] @
          lit '' <code>r07</code> | 2026-01-01 | Cafe | 7 EUR'' @ [0xA, 0xD83E, 0xDDFE] @
          lit '' <code>r06</code> | 2026-01-01 | Cafe | 6 EUR'' @ [0xA, 0xD83E, 0xDDFE] @
          lit '' <code>r05</code> | 2026-01-01 | Cafe | 5 EUR'' @ [0xA, 0xD83E, 0xDDFE] @
          lit '' <code>r04</code> | 2026-01-01 | Cafe | 4 EUR'' @ [0xA, 0xD83E, 0xDDFE] @
          lit '' <code>r03</code> | 2026-01-01 | Cafe | 3 EUR'' @
          [0xA, 0xA, 0x67E5, 0x770B, 0x8BE6, 0x60C5] @ lit '': /receipt_ID'' @ [0x524D] @
          lit ''8'' @ [0x4F4D]"
  by (simp add: historyText_def historyLine_def getUserReceipts_def joined_rows_def
        order_by_desc_def toDetails_def getReceiptItems_def demo_db_def demo_receipt_def
        demo_link_def twelve_receipts_def demo_env_def demo_Number_toString_def
        is_small_natural_def decimal.simps substring0_def or_else_def num_or_def Let_def
        lit_def)

theorem handleHistory_ten_most_recent_witness:
  "length (linked_receipts (demo_db None twelve_receipts) (lit ''uuid-xx'')) = 12 \<and>
   map r_id (take 10 (getUserReceipts (demo_db None twelve_receipts) (lit ''uuid-xx'')))
     = [lit ''r12'', lit ''r11'', lit ''r10'', lit ''r09'', lit ''r08'', lit ''r07'',
        lit ''r06'', lit ''r05'', lit ''r04'', lit ''r03''] \<and>
   handleMessage demo_env (text_message (lit ''/history'')) (world_of (demo_db None twelve_receipts))
     = (Inr (),
        \<lparr>db = demo_db None twelve_receipts, tick = 1,
          sent = [(42,
          [0xD83D, 0xDCCB] @ lit '' <b>'' @ [0x6700, 0x8FD1] @ lit '' 10 '' @
          [0x6761, 0x8D26, 0x5355] @ lit ''</b>'' @ [0xA, 0xA, 0xD83E, 0xDDFE] @
          lit '' <code>r12</code> | 2026-01-01 | Cafe | 12 EUR'' @ [0xA, 0xD83E, 0xDDFE] @
          lit '' <code>r11</code> | 2026-01-01 | Cafe | 11 EUR'' @ [0xA, 0xD83E, 0xDDFE] @
          lit '' <code>r10</code> | 2026-01-01 | Cafe | 10 EUR'' @ [0xA, 0xD83E, 0xDDFE] @
          lit '' <code>r09</code> | 2026-01-01 | Cafe | 9 EUR'' @ [0xA, 0xD83E, 0xDDFE] @
          lit '' <code>r08</code> | 2026-01-01 | Cafe | 8 EUR'' @ [0xA, 0xD83E, 0xDDFE] @
          lit '' <code>r07</code> | 2026-01-01 | Cafe | 7 EUR'' @ [0xA, 0xD83E, 0xDDFE] @
          lit '' <code>r06</code> | 2026-01-01 | Cafe | 6 EUR'' @ [0xA, 0xD83E, 0xDDFE] @
          lit '' <code>r05</code> | 2026-01-01 | Cafe | 5 EUR'' @ [0xA, 0xD83E, 0xDDFE] @
          lit '' <code>r04</code> | 2026-01-01 | Cafe | 4 EUR'' @ [0xA, 0xD83E, 0xDDFE] @
          lit '' <code>r03</code> | 2026-01-01 | Cafe | 3 EUR'' @
          [0xA, 0xA, 0x67E5, 0x770B, 0x8BE6, 0x60C5] @ lit '': /receipt_ID'' @ [0x524D] @
          lit ''8'' @ [0x4F4D])],
          chat_actions = [], bridge_calls = []\<rparr>)"
proof -
  let ?d = "demo_db None twelve_receipts"
  let ?m = "text_message (lit ''/history'')"
  let ?u = "\<lparr>chat_id = lit ''42'', user_id = lit ''uuid-xx'', google_api_key = None,
             tu_created_at = lit ''2026-01-01T00:00:00.000Z''\<rparr>"
  have cmd: "startsWith (or_else (msg_text ?m) []) (lit ''/history'')"
    by (simp add: text_message_def or_else_def startsWith_def lit_def)
  have reg: "findTelegramUser (db (world_of ?d)) (String_of_chat demo_env (msg_chat_id ?m))
               = Some ?u"
    by (simp add: findTelegramUser_def world_of_def demo_db_def demo_env_def text_message_def)
  have ids: "map r_id (take 10 (getUserReceipts ?d (lit ''uuid-xx'')))
               = [lit ''r12'', lit ''r11'', lit ''r10'', lit ''r09'', lit ''r08'', lit ''r07'',
                  lit ''r06'', lit ''r05'', lit ''r04'', lit ''r03'']"
    by (simp add: take_map [symmetric] twelve_listing)
  then have nonempty: "getUserReceipts ?d (lit ''uuid-xx'') \<noteq> []"
    by auto
  have linked: "length (linked_receipts ?d (lit ''uuid-xx'')) = 12"
    by (simp add: linked_receipts_def demo_db_def demo_receipt_def demo_link_def
          twelve_receipts_def lit_def)
  from handleHistory_ten_most_recent [OF cmd reg]
  have "handleMessage demo_env ?m (world_of ?d) =
          sendMessage demo_env (msg_chat_id ?m)
            (if getUserReceipts (db (world_of ?d)) (user_id ?u) = [] then txt_no_receipts
             else historyText demo_env (take 10 (getUserReceipts (db (world_of ?d)) (user_id ?u))))
            (world_of ?d)"
    by blast
  with nonempty have "handleMessage demo_env ?m (world_of ?d) =
          sendMessage demo_env 42
            (historyText demo_env (take 10 (getUserReceipts ?d (lit ''uuid-xx''))))
            (world_of ?d)"
    by (simp add: world_of_def text_message_def)
  then have "handleMessage demo_env ?m (world_of ?d)
     = (Inr (),
        \<lparr>db = ?d, tick = 1,
          sent = [(42,
          [0xD83D, 0xDCCB] @ lit '' <b>'' @ [0x6700, 0x8FD1] @ lit '' 10 '' @
          [0x6761, 0x8D26, 0x5355] @ lit ''</b>'' @ [0xA, 0xA, 0xD83E, 0xDDFE] @
          lit '' <code>r12</code> | 2026-01-01 | Cafe | 12 EUR'' @ [0xA, 0xD83E, 0xDDFE] @
          lit '' <code>r11</code> | 2026-01-01 | Cafe | 11 EUR'' @ [0xA, 0xD83E, 0xDDFE] @
          lit '' <code>r10</code> | 2026-01-01 | Cafe | 10 EUR'' @ [0xA, 0xD83E, 0xDDFE] @
          lit '' <code>r09</code> | 2026-01-01 | Cafe | 9 EUR'' @ [0xA, 0xD83E, 0xDDFE] @
          lit '' <code>r08</code> | 2026-01-01 | Cafe | 8 EUR'' @ [0xA, 0xD83E, 0xDDFE] @
          lit '' <code>r07</code> | 2026-01-01 | Cafe | 7 EUR'' @ [0xA, 0xD83E, 0xDDFE] @
          lit '' <code>r06</code> | 2026-01-01 | Cafe | 6 EUR'' @ [0xA, 0xD83E, 0xDDFE] @
          lit '' <code>r05</code> | 2026-01-01 | Cafe | 5 EUR'' @ [0xA, 0xD83E, 0xDDFE] @
          lit '' <code>r04</code> | 2026-01-01 | Cafe | 4 EUR'' @ [0xA, 0xD83E, 0xDDFE] @
          lit '' <code>r03</code> | 2026-01-01 | Cafe | 3 EUR'' @
          [0xA, 0xA, 0x67E5, 0x770B, 0x8BE6, 0x60C5] @ lit '': /receipt_ID'' @ [0x524D] @
          lit ''8'' @ [0x4F4D])],
          chat_actions = [], bridge_calls = []\<rparr>)"
    unfolding twelve_history_text
    by (simp add: sendMessage_def world_of_def demo_env_def)
  with ids linked show ?thesis by (simp only: simp_thms)
qed

section \<open>\<open>/receipt\<close> looks a receipt up by the start of its id\<close>

text \<open>
  C8. The code at an id-prefix spelled in upper case. The pattern of the dispatcher
  carries the flag \<open>i\<close> on the class of hexadecimal digits, so it accepts
  \<open>/receipt_ABCDEF12\<close> and hands over \<open>ABCDEF12\<close> as spelled; the scan then compares with
  \<open>startsWith\<close>, which tells the cases apart, and the ids are lower case as
  \<open>crypto.randomUUID()\<close> writes them. The account's receipt \<open>abcdef12-...\<close>, whose id starts
  with these digits up to case, is not found: the match of the digits is not
  case-insensitive.
\<close>

theorem receipt_lookup_case_counterexample:
  "receiptMatch (lit ''/receipt_ABCDEF12'') = Some (lit ''ABCDEF12'') \<and>
   map r_id (getUserReceipts (demo_db None one_receipt) (lit ''uuid-xx''))
     = [lit ''abcdef12-0000-4000-8000-000000000000''] \<and>
   map upper_ascii (take 8 (lit ''abcdef12-0000-4000-8000-000000000000''))
     = map upper_ascii (lit ''ABCDEF12'') \<and>
   sent (snd (handleMessage demo_env (text_message (lit ''/receipt_ABCDEF12''))
                (world_of (demo_db None one_receipt))))
     = [(42, txt_receipt_not_found)]"
proof -
  let ?m = "text_message (lit ''/receipt_ABCDEF12'')"
  have pat: "receiptMatch (lit ''/receipt_ABCDEF12'') = Some (lit ''ABCDEF12'')"
    by (simp add: receiptMatch_def upper_ascii_def isHexDigitI_def lit_def)
  then have pat': "receiptMatch (or_else (msg_text ?m) []) = Some (lit ''ABCDEF12'')"
    by (simp add: text_message_def or_else_def lit_def)
  have none: "find (\<lambda>r. startsWith (r_id r) (lit ''ABCDEF12''))
                (getUserReceipts (demo_db None one_receipt) (lit ''uuid-xx'')) = None"
    using one_receipt_listing by (auto simp: find_None_iff startsWith_def lit_def)
  have facts: "db (world_of (demo_db None one_receipt)) = demo_db None one_receipt"
    "msg_chat_id ?m = 42"
    by (simp_all add: world_of_def text_message_def)
  have "handleMessage demo_env ?m (world_of (demo_db None one_receipt))
          = sendMessage demo_env 42 txt_receipt_not_found (world_of (demo_db None one_receipt))"
    unfolding handleMessage_receipt [OF pat'] handleReceiptDetail_registered [OF demo_session]
    by (simp add: facts none)
  then have "sent (snd (handleMessage demo_env ?m (world_of (demo_db None one_receipt))))
               = [(42, txt_receipt_not_found)]"
    by (simp add: sendMessage_def demo_env_def world_of_def)
  with pat one_receipt_listing show ?thesis
    by (simp add: upper_ascii_def lit_def)
qed

text \<open>
  What the lookup does on every input. For a chat with a session and a text that matches
  the \<open>/receipt\<close> pattern, the handler scans the account's listing, newest link first, and
  answers with the first receipt whose id starts with the id-prefix as the user spelled
  it; when no id starts with it the answer is the not-found text. The database is
  unchanged in both cases.
\<close>

theorem receipt_lookup:
  assumes reg: "findTelegramUser (db w) (String_of_chat E (msg_chat_id msg)) = Some u"
    and pat: "receiptMatch (or_else (msg_text msg) []) = Some p"
  shows "handleMessage E msg w =
           sendMessage E (msg_chat_id msg)
             (case find (\<lambda>r. startsWith (r_id r) p) (getUserReceipts (db w) (user_id u)) of
                None \<Rightarrow> txt_receipt_not_found
              | Some r \<Rightarrow> formatReceipt E r) w \<and>
         db (snd (handleMessage E msg w)) = db w \<and>
         (find (\<lambda>r. startsWith (r_id r) p) (getUserReceipts (db w) (user_id u)) = None
            \<longleftrightarrow> (\<forall>r \<in> set (getUserReceipts (db w) (user_id u)). take (length p) (r_id r) \<noteq> p)) \<and>
         (\<forall>r. find (\<lambda>r. startsWith (r_id r) p) (getUserReceipts (db w) (user_id u)) = Some r
            \<longrightarrow> (\<exists>i < length (getUserReceipts (db w) (user_id u)).
                   getUserReceipts (db w) (user_id u) ! i = r \<and>
                   take (length p) (r_id r) = p \<and>
                   (\<forall>j < i. take (length p) (r_id (getUserReceipts (db w) (user_id u) ! j)) \<noteq> p)))"
proof -
  have run: "handleMessage E msg w =
           sendMessage E (msg_chat_id msg)
             (case find (\<lambda>r. startsWith (r_id r) p) (getUserReceipts (db w) (user_id u)) of
                None \<Rightarrow> txt_receipt_not_found
              | Some r \<Rightarrow> formatReceipt E r) w"
    by (simp only: handleMessage_receipt [OF pat] handleReceiptDetail_registered [OF reg])
  then have "db (snd (handleMessage E msg w)) = db w"
    by (simp add: sendMessage_frame)
  with run show ?thesis
    by (auto simp: find_None_iff find_Some_iff startsWith_def)
qed

theorem receipt_lookup_witness:
  "receiptMatch (or_else (msg_text (text_message (lit ''/receipt_abcdef12''))) [])
     = Some (lit ''abcdef12'') \<and>
   map r_id (getUserReceipts (demo_db None one_receipt) (lit ''uuid-xx''))
     = [lit ''abcdef12-0000-4000-8000-000000000000''] \<and>
   handleMessage demo_env (text_message (lit ''/receipt_abcdef12''))
       (world_of (demo_db None one_receipt))
     = sendMessage demo_env 42
         (formatReceipt demo_env (hd (getUserReceipts (demo_db None one_receipt) (lit ''uuid-xx''))))
         (world_of (demo_db None one_receipt)) \<and>
   db (snd (handleMessage demo_env (text_message (lit ''/receipt_abcdef12''))
              (world_of (demo_db None one_receipt))))
     = demo_db None one_receipt"
proof -
  let ?m = "text_message (lit ''/receipt_abcdef12'')"
  let ?w = "world_of (demo_db None one_receipt)"
  let ?rs = "getUserReceipts (demo_db None one_receipt) (lit ''uuid-xx'')"
  have pat: "receiptMatch (or_else (msg_text ?m) []) = Some (lit ''abcdef12'')"
    by (simp add: receiptMatch_def upper_ascii_def isHexDigitI_def text_message_def
          or_else_def lit_def)
  from one_receipt_listing obtain r where rs: "?rs = [r]"
    and r: "r_id r = lit ''abcdef12-0000-4000-8000-000000000000''"
    by (cases ?rs) auto
  have found: "find (\<lambda>r. startsWith (r_id r) (lit ''abcdef12'')) ?rs = Some (hd ?rs)"
    unfolding rs by (simp add: r startsWith_def lit_def)
  note th = receipt_lookup [OF demo_session pat, of None one_receipt]
  have "handleMessage demo_env ?m ?w =
          sendMessage demo_env (msg_chat_id ?m)
            (case find (\<lambda>r. startsWith (r_id r) (lit ''abcdef12'')) (getUserReceipts (db ?w) (lit ''uuid-xx'')) of
               None \<Rightarrow> txt_receipt_not_found
             | Some r \<Rightarrow> formatReceipt demo_env r) ?w"
    using th [THEN conjunct1] by simp
  moreover have "db (snd (handleMessage demo_env ?m ?w)) = db ?w"
    using th [THEN conjunct2, THEN conjunct1] .
  moreover have "db ?w = demo_db None one_receipt" "msg_chat_id ?m = 42"
    by (simp_all add: world_of_def text_message_def)
  ultimately show ?thesis
    using pat one_receipt_listing found by simp
qed

section \<open>\<open>/delete\<close> removes the ownership link and the receipt\<close>






section \<open>\<open>/delete\<close> followed only by whitespace\<close>





end
